theory Spec2Isabelle
  imports Main
begin

section \<open>Python values, exceptions and the numbers of \<open>create_invoice\<close>\<close>

text \<open>
  The development embeds \<^verbatim>\<open>src/main.py\<close>: the three action handlers, the agent turn
  \<open>run_quotation_agent\<close>, the connection manager and the body of the receive loop of
  \<open>websocket_endpoint\<close>.

  A Python \<open>str\<close> is a \<open>string\<close>: the bytes of its UTF-8 encoding, so a code
  point outside ASCII is two to four characters from 128 up (a lone surrogate, which a
  JSON escape can deliver, is the three bytes that the scheme gives its number). \<open>strip\<close> below removes the
  whitespace of Unicode; \<open>lower\<close> and \<open>upper\<close> map the ASCII letters and keep every
  other code point (Python also maps the cased letters outside ASCII: its \<open>lower\<close> gives
  an ASCII letter for two of them only, \<open>k\<close> for U+212A and \<open>i\<close>, followed by U+0307,
  for U+0130).

  An exception is its class and the text \<open>str(e)\<close>. Every class below derives from
  \<open>Exception\<close>, so \<open>except Exception\<close> catches each of them.
\<close>

datatype exn_class =
    InvalidRequestError | JSONDecodeError | WebSocketDisconnect | ValidationError
  | TypeError | ValueError | OverflowError | AttributeError | RuntimeError | RecursionError
  | OtherException

datatype exn = Exn exn_class string

fun exn_class_of :: "exn \<Rightarrow> exn_class" where
  "exn_class_of (Exn c t) = c"

fun str_exn :: "exn \<Rightarrow> string" where
  "str_exn (Exn c t) = t"

text \<open>
  A Python \<open>float\<close> that is finite is \<open>Finite m e\<close>, the number \<open>m * 2 ^ e\<close>;
  the values that reach the handlers from a tool call are \<open>None\<close>, numbers and strings.
\<close>

datatype pyfloat = Finite int int | PosInf | NegInf | NaN

datatype pyval = PyNone | PyInt int | PyFloat pyfloat | PyStr string

fun type_name :: "pyval \<Rightarrow> string" where
  "type_name PyNone = ''NoneType''"
| "type_name (PyInt n) = ''int''"
| "type_name (PyFloat x) = ''float''"
| "type_name (PyStr s) = ''str''"

fun py_truthy :: "pyval \<Rightarrow> bool" where
  "py_truthy PyNone = False"
| "py_truthy (PyInt n) = (n \<noteq> 0)"
| "py_truthy (PyFloat (Finite m e)) = (m \<noteq> 0)"
| "py_truthy (PyFloat x) = True"
| "py_truthy (PyStr s) = (s \<noteq> [])"

definition py_or :: "pyval \<Rightarrow> pyval \<Rightarrow> pyval" where
  "py_or a b = (if py_truthy a then a else b)"

definition quoted :: "string \<Rightarrow> string" where
  "quoted s = [CHR 0x27] @ s @ [CHR 0x27]"

definition attribute_error :: "pyval \<Rightarrow> string \<Rightarrow> exn" where
  "attribute_error v a =
     Exn AttributeError (quoted (type_name v) @ '' object has no attribute '' @ quoted a)"

subsection \<open>Strings\<close>

definition lower_char :: "char \<Rightarrow> char" where
  "lower_char c = (let n = (of_char c :: nat) in if 65 \<le> n \<and> n \<le> 90 then char_of (n + 32) else c)"

definition upper_char :: "char \<Rightarrow> char" where
  "upper_char c = (let n = (of_char c :: nat) in if 97 \<le> n \<and> n \<le> 122 then char_of (n - 32) else c)"

definition py_lower :: "string \<Rightarrow> string" where
  "py_lower s = map lower_char s"

definition py_upper :: "string \<Rightarrow> string" where
  "py_upper s = map upper_char s"

text \<open>
  The code points for which \<open>str.isspace\<close> holds, each as its UTF-8 encoding: U+0009 to
  U+000D, U+001C to U+0020, U+0085, U+00A0, U+1680, U+2000 to U+200A, U+2028, U+2029,
  U+202F, U+205F and U+3000.
\<close>

definition whitespace :: "string list" where
  "whitespace =
     [[CHR 0x09], [CHR 0x0A], [CHR 0x0B], [CHR 0x0C], [CHR 0x0D],
      [CHR 0x1C], [CHR 0x1D], [CHR 0x1E], [CHR 0x1F], [CHR 0x20],
      [CHR 0xC2, CHR 0x85], [CHR 0xC2, CHR 0xA0], [CHR 0xE1, CHR 0x9A, CHR 0x80],
      [CHR 0xE2, CHR 0x80, CHR 0x80], [CHR 0xE2, CHR 0x80, CHR 0x81], [CHR 0xE2, CHR 0x80, CHR 0x82],
      [CHR 0xE2, CHR 0x80, CHR 0x83], [CHR 0xE2, CHR 0x80, CHR 0x84], [CHR 0xE2, CHR 0x80, CHR 0x85],
      [CHR 0xE2, CHR 0x80, CHR 0x86], [CHR 0xE2, CHR 0x80, CHR 0x87], [CHR 0xE2, CHR 0x80, CHR 0x88],
      [CHR 0xE2, CHR 0x80, CHR 0x89], [CHR 0xE2, CHR 0x80, CHR 0x8A],
      [CHR 0xE2, CHR 0x80, CHR 0xA8], [CHR 0xE2, CHR 0x80, CHR 0xA9], [CHR 0xE2, CHR 0x80, CHR 0xAF],
      [CHR 0xE2, CHR 0x81, CHR 0x9F], [CHR 0xE3, CHR 0x80, CHR 0x80]]"

text \<open>\<open>drop_prefix p s\<close>: the rest of \<open>s\<close> after its prefix \<open>p\<close>, if \<open>s\<close> starts with \<open>p\<close>.\<close>

fun drop_prefix :: "string \<Rightarrow> string \<Rightarrow> string option" where
  "drop_prefix [] s = Some s"
| "drop_prefix (p # ps) [] = None"
| "drop_prefix (p # ps) (c # s) = (if p = c then drop_prefix ps s else None)"

text \<open>The rest of \<open>s\<close> after one leading code point of \<open>codes\<close>, if \<open>s\<close> starts with one.\<close>

fun drop_code :: "string list \<Rightarrow> string \<Rightarrow> string option" where
  "drop_code [] s = None"
| "drop_code (p # ps) s = (case drop_prefix p s of Some t \<Rightarrow> Some t | None \<Rightarrow> drop_code ps s)"

text \<open>Removing the leading code points of \<open>codes\<close> (none of which is empty).\<close>

function strip_left :: "string list \<Rightarrow> string \<Rightarrow> string" where
  "strip_left codes s =
     (case drop_code (removeAll [] codes) s of Some t \<Rightarrow> strip_left codes t | None \<Rightarrow> s)"
  by pat_completeness auto
termination
proof (relation "measure (\<lambda>(codes, s). length s)")
  show "wf (measure (\<lambda>(codes, s). length s))"
    by simp
next
  fix codes :: "string list" and s t :: string
  assume t: "drop_code (removeAll [] codes) s = Some t"
  have p: "drop_prefix p u = Some v \<Longrightarrow> length u = length p + length v" for p u v
    by (induction p u rule: drop_prefix.induct) (auto split: if_splits)
  have "[] \<notin> set cs \<Longrightarrow> drop_code cs s = Some t \<Longrightarrow> length t < length s" for cs
  proof (induction cs)
    case Nil
    then show ?case by simp
  next
    case (Cons c cs)
    then show ?case
      by (cases "drop_prefix c s") (auto dest: p)
  qed
  from this [of "removeAll [] codes"] t have "length t < length s"
    by simp
  then show "((codes, t), (codes, s)) \<in> measure (\<lambda>(codes, s). length s)"
    by simp
qed

declare strip_left.simps [simp del]

text \<open>
  \<open>s.strip()\<close>. The encoding of a code point is no suffix of the encoding of a text that
  ends otherwise, so the trailing whitespace is read off the reversed bytes.
\<close>

definition py_strip :: "string \<Rightarrow> string" where
  "py_strip s = rev (strip_left (map rev whitespace) (rev (strip_left whitespace s)))"

text \<open>\<open>s.split(sep)[0]\<close> for a one-character separator: the text before its first occurrence.\<close>

definition split_first :: "char \<Rightarrow> string \<Rightarrow> string" where
  "split_first sep s = takeWhile (\<lambda>c. c \<noteq> sep) s"

definition digit_char :: "int \<Rightarrow> char" where
  "digit_char d = char_of (48 + d)"

text \<open>The decimal digits of a natural number given as an \<open>int\<close>.\<close>

function str_digits :: "int \<Rightarrow> string" where
  "str_digits n = (if n < 10 then [digit_char n] else str_digits (n div 10) @ [digit_char (n mod 10)])"
  by pat_completeness auto
termination
  by (relation "measure nat") auto

declare str_digits.simps [simp del]

definition str_int :: "int \<Rightarrow> string" where
  "str_int i = (if i < 0 then ''-'' @ str_digits (- i) else str_digits i)"

subsection \<open>Floats: \<open>float(amount)\<close>, \<open>int(...)\<close>, \<open>n / 100\<close> and \<open>:.2f\<close>\<close>

function bit_length :: "int \<Rightarrow> nat" where
  "bit_length n = (if n \<le> 0 then 0 else Suc (bit_length (n div 2)))"
  by pat_completeness auto
termination
  by (relation "measure nat") auto

declare bit_length.simps [simp del]

text \<open>The integer nearest to \<open>num / den\<close>, a tie going to the even one (\<open>num \<ge> 0\<close>, \<open>den > 0\<close>).\<close>

definition round_half_even :: "int \<Rightarrow> int \<Rightarrow> int" where
  "round_half_even num den =
     (let q = num div den; r = num mod den
      in if den < 2 * r \<or> (2 * r = den \<and> odd q) then q + 1 else q)"

text \<open>
  The double nearest to \<open>num / den\<close> for \<open>num, den > 0\<close>, as mantissa and exponent: the
  exponent \<open>e\<close> puts \<open>num / den / 2 ^ e\<close> in \<open>[2 ^ 52, 2 ^ 53)\<close>, the mantissa is that
  quotient rounded half to even. (No quotient of this program is small enough to be
  subnormal: the divisors are 1 and 100.)
\<close>

definition round53 :: "int \<Rightarrow> int \<Rightarrow> int \<times> int" where
  "round53 num den =
     (let k = int (bit_length num) - int (bit_length den);
          fl = (if den * 2 ^ nat k \<le> num * 2 ^ nat (- k) then k else k - 1);
          e = fl - 52
      in (round_half_even (num * 2 ^ nat (- e)) (den * 2 ^ nat e), e))"

text \<open>A rounded result \<open>m * 2 ^ e\<close> with \<open>m \<le> 2 ^ 53\<close> is out of the doubles' range from \<open>2 ^ 1024\<close> on.\<close>

definition too_large :: "int \<times> int \<Rightarrow> bool" where
  "too_large me = (case me of (m, e) \<Rightarrow> 972 \<le> e \<or> (e = 971 \<and> m = 2 ^ 53))"

definition signed :: "int \<Rightarrow> int \<Rightarrow> int" where
  "signed a m = (if a < 0 then - m else m)"

text \<open>\<open>float(n)\<close> on a Python int: the nearest double.\<close>

definition float_of_int :: "int \<Rightarrow> exn + pyfloat" where
  "float_of_int n =
     (if n = 0 then Inr (Finite 0 0)
      else let me = round53 \<bar>n\<bar> 1
           in if too_large me then Inl (Exn OverflowError ''int too large to convert to float'')
              else Inr (Finite (signed n (fst me)) (snd me)))"

text \<open>\<open>n / 100\<close> on Python ints: true division, correctly rounded.\<close>

definition truediv100 :: "int \<Rightarrow> exn + pyfloat" where
  "truediv100 n =
     (if n = 0 then Inr (Finite 0 0)
      else let me = round53 \<bar>n\<bar> 100
           in if too_large me
              then Inl (Exn OverflowError ''integer division result too large for a float'')
              else Inr (Finite (signed n (fst me)) (snd me)))"

text \<open>\<open>int(x)\<close> on a float: truncation towards zero.\<close>

fun int_of_float :: "pyfloat \<Rightarrow> exn + int" where
  "int_of_float (Finite m e) =
     Inr (if 0 \<le> e then m * 2 ^ nat e else signed m (\<bar>m\<bar> div 2 ^ nat (- e)))"
| "int_of_float NaN = Inl (Exn ValueError ''cannot convert float NaN to integer'')"
| "int_of_float x = Inl (Exn OverflowError ''cannot convert float infinity to integer'')"

definition two_digits :: "int \<Rightarrow> string" where
  "two_digits n = [digit_char (n div 10), digit_char (n mod 10)]"

text \<open>\<open>format(x, '.2f')\<close>: the exact value of the double, rounded half to even at two decimals.\<close>

fun format_2f :: "pyfloat \<Rightarrow> string" where
  "format_2f (Finite m e) =
     (let h = (if 0 \<le> e then \<bar>m\<bar> * 2 ^ nat e * 100
               else round_half_even (\<bar>m\<bar> * 100) (2 ^ nat (- e)))
      in (if m < 0 then ''-'' else '''') @ str_digits (h div 100) @ ''.'' @ two_digits (h mod 100))"
| "format_2f PosInf = ''inf''"
| "format_2f NegInf = ''-inf''"
| "format_2f NaN = ''nan''"

text \<open>\<open>f"{n/100:.2f}"\<close> for an int \<open>n\<close>.\<close>

definition major_units :: "int \<Rightarrow> exn + string" where
  "major_units n = (case truediv100 n of Inl err \<Rightarrow> Inl err | Inr x \<Rightarrow> Inr (format_2f x))"

section \<open>Computations that raise and change state\<close>

text \<open>
  A Python call either returns a value or raises, and may change the state it runs in:
  a computation maps a state to an outcome (\<open>Inl\<close> the exception raised, \<open>Inr\<close> the
  value returned) and the state after it.
\<close>

type_synonym ('a, 's) py = "'s \<Rightarrow> (exn + 'a) \<times> 's"

definition py_return :: "'a \<Rightarrow> ('a, 's) py" where
  "py_return x = (\<lambda>s. (Inr x, s))"

definition py_raise :: "exn \<Rightarrow> ('a, 's) py" where
  "py_raise err = (\<lambda>s. (Inl err, s))"

definition py_lift :: "exn + 'a \<Rightarrow> ('a, 's) py" where
  "py_lift r = (\<lambda>s. (r, s))"

definition py_bind :: "('a, 's) py \<Rightarrow> ('a \<Rightarrow> ('b, 's) py) \<Rightarrow> ('b, 's) py" where
  "py_bind m f = (\<lambda>s. case m s of (Inl err, s') \<Rightarrow> (Inl err, s') | (Inr x, s') \<Rightarrow> f x s')"

text \<open>\<open>try: m except ... as e: h e\<close>; a handler that does not match re-raises.\<close>

definition py_try :: "('a, 's) py \<Rightarrow> (exn \<Rightarrow> ('a, 's) py) \<Rightarrow> ('a, 's) py" where
  "py_try m h = (\<lambda>s. case m s of (Inl err, s') \<Rightarrow> h err s' | (Inr x, s') \<Rightarrow> (Inr x, s'))"

section \<open>The collaborators the source calls\<close>

text \<open>
  The payments provider, the language model, the JSON decoder, the clock and the socket
  are not code of the repository. Each is a function of the environment \<open>E\<close> over a
  state \<open>'w\<close> of the outside world; what it returns or raises is the environment's choice.
  The objects they return hold the attributes the source reads.
\<close>

record Customer =
  cus_id :: string

record Invoice =
  inv_id :: string
  inv_total :: int

record FunctionCall =
  fc_name :: string
  fc_args :: "(string \<times> pyval) list"

text \<open>\<open>function_call = None\<close>: the part has no function call (\<open>part.function_call\<close> is falsy).\<close>

record Part =
  function_call :: "FunctionCall option"

record Content =
  parts :: "Part list"

text \<open>
  \<open>content = None\<close>: \<open>candidate.content\<close> is falsy. \<open>response_text\<close> is what the
  accessor \<open>response.text\<close> of the provider's library yields: a string, or the exception
  it raises when the response has no plain text.
\<close>

record Candidate =
  content :: "Content option"

record GenerateContentResponse =
  candidates :: "Candidate list"
  response_text :: "exn + string"

datatype json =
    JNull | JBool bool | JInt int | JFloat pyfloat | JString string
  | JArray "json list" | JObject "(string \<times> json) list"

type_synonym websocket = nat

record ChatMessage =
  cm_session_id :: string
  cm_message :: string
  cm_user_id :: string
  cm_timestamp :: "string option"
  cm_message_type :: string

record ChatResponse =
  session_id :: string
  message :: string
  sender :: string
  timestamp :: string
  message_type :: string
  success :: bool
  error :: "string option"

text \<open>
  \<open>Invoice_create\<close> takes customer, currency and description (the source also passes the
  constants \<open>collection_method="send_invoice"\<close> and \<open>days_until_due=30\<close>);
  \<open>InvoiceItem_create\<close> takes customer, invoice, amount, currency and description;
  \<open>Invoice_list\<close> takes the customer filter, if any, and returns \<open>invoices.data\<close>.
  \<open>float_of_str\<close> is Python's \<open>float(s)\<close> on a string and \<open>float_repr\<close> its
  \<open>str(x)\<close> on a float. \<open>ChatMessage_error\<close> is the exception that
  \<open>ChatMessage(**message_data)\<close> raises on data that does not fit the declared fields.
  \<open>ws_send_text\<close> sends the JSON dump of a response; the model keeps the response itself.
  \<open>ws_receive_text\<close> raises \<open>WebSocketDisconnect\<close> when the client has gone.
\<close>

record 'w env =
  Customer_create :: "pyval \<Rightarrow> pyval \<Rightarrow> pyval \<Rightarrow> (Customer, 'w) py"
  Customer_retrieve :: "pyval \<Rightarrow> (Customer, 'w) py"
  Invoice_create :: "pyval \<Rightarrow> string \<Rightarrow> pyval \<Rightarrow> (Invoice, 'w) py"
  InvoiceItem_create :: "pyval \<Rightarrow> string \<Rightarrow> int \<Rightarrow> string \<Rightarrow> pyval \<Rightarrow> (unit, 'w) py"
  Invoice_finalize_invoice :: "string \<Rightarrow> (Invoice, 'w) py"
  Invoice_list :: "pyval option \<Rightarrow> (Invoice list, 'w) py"
  generate_content :: "string \<Rightarrow> (GenerateContentResponse, 'w) py"
  float_of_str :: "string \<Rightarrow> exn + pyfloat"
  float_repr :: "pyfloat \<Rightarrow> string"
  json_loads :: "string \<Rightarrow> exn + json"
  ChatMessage_error :: "json \<Rightarrow> exn"
  now_isoformat :: "'w \<Rightarrow> string \<times> 'w"
  uuid4 :: "'w \<Rightarrow> string \<times> 'w"
  ws_accept :: "websocket \<Rightarrow> (unit, 'w) py"
  ws_receive_text :: "websocket \<Rightarrow> (string, 'w) py"
  ws_send_text :: "websocket \<Rightarrow> ChatResponse \<Rightarrow> (unit, 'w) py"

section \<open>Action handlers\<close>

text \<open>\<open>str(v)\<close>, as an f-string renders a value.\<close>

fun py_str :: "'w env \<Rightarrow> pyval \<Rightarrow> string" where
  "py_str E PyNone = ''None''"
| "py_str E (PyInt n) = str_int n"
| "py_str E (PyFloat x) = float_repr E x"
| "py_str E (PyStr s) = s"

text \<open>\<open>v.split("@")[0]\<close>, \<open>v.lower()\<close> and \<open>v.upper()\<close>: only a \<open>str\<close> has the method.\<close>

fun local_part :: "pyval \<Rightarrow> exn + pyval" where
  "local_part (PyStr s) = Inr (PyStr (split_first CHR ''@'' s))"
| "local_part v = Inl (attribute_error v ''split'')"

fun lower_of :: "pyval \<Rightarrow> exn + string" where
  "lower_of (PyStr s) = Inr (py_lower s)"
| "lower_of v = Inl (attribute_error v ''lower'')"

fun upper_of :: "pyval \<Rightarrow> exn + string" where
  "upper_of (PyStr s) = Inr (py_upper s)"
| "upper_of v = Inl (attribute_error v ''upper'')"

text \<open>\<open>float(v)\<close>.\<close>

fun py_float :: "'w env \<Rightarrow> pyval \<Rightarrow> exn + pyfloat" where
  "py_float E PyNone =
     Inl (Exn TypeError (''float() argument must be a string or a real number, not '' @ quoted ''NoneType''))"
| "py_float E (PyInt n) = float_of_int n"
| "py_float E (PyFloat x) = Inr x"
| "py_float E (PyStr s) = float_of_str E s"

text \<open>\<open>int(float(amount))\<close>, line 46.\<close>

definition coerce_amount :: "'w env \<Rightarrow> pyval \<Rightarrow> exn + int" where
  "coerce_amount E amount = (case py_float E amount of Inl err \<Rightarrow> Inl err | Inr x \<Rightarrow> int_of_float x)"

text \<open>Each handler is a \<open>try\<close> block (\<open>_try\<close>) inside \<open>except Exception as e\<close>.\<close>

definition create_customer_try :: "'w env \<Rightarrow> pyval \<Rightarrow> pyval \<Rightarrow> pyval \<Rightarrow> (string, 'w) py" where
  "create_customer_try E email name description =
     py_bind (if py_truthy name then py_return name else py_lift (local_part email)) (\<lambda>nm.
     py_bind (Customer_create E email nm
                (py_or description (PyStr ''Customer created via AI agent''))) (\<lambda>customer.
     py_return (''Customer '' @ cus_id customer @ '' created successfully for '' @ py_str E email)))"

definition create_customer :: "'w env \<Rightarrow> pyval \<Rightarrow> pyval \<Rightarrow> pyval \<Rightarrow> (string, 'w) py" where
  "create_customer E email name description =
     py_try (create_customer_try E email name description)
       (\<lambda>err. py_return (''Error creating customer: '' @ str_exn err))"

text \<open>
  Lines 49 to 59: the customer the invoice is made for. Only the lookup is inside the
  inner \<open>try\<close>; an exception of the demo customer's creation leaves the handler's clause.
\<close>

definition demo_customer :: "'w env \<Rightarrow> pyval \<Rightarrow> (Customer, 'w) py" where
  "demo_customer E customer_id =
     Customer_create E (PyStr (py_str E customer_id @ ''@demo.com''))
       (PyStr (''Demo Customer '' @ py_str E customer_id))
       (PyStr ''Demo customer created by AI agent'')"

definition ensure_customer :: "'w env \<Rightarrow> pyval \<Rightarrow> (pyval, 'w) py" where
  "ensure_customer E customer_id =
     py_try (py_bind (Customer_retrieve E customer_id) (\<lambda>c. py_return customer_id))
       (\<lambda>err. if exn_class_of err = InvalidRequestError
              then py_bind (demo_customer E customer_id) (\<lambda>demo. py_return (PyStr (cus_id demo)))
              else py_raise err)"

text \<open>The currency sign of line 82, as the bytes of the source file.\<close>

definition rupee :: string where
  "rupee = [CHR 0xC3, CHR 0xA2, CHR 0xE2, CHR 0x80, CHR 0x9A, CHR 0xC2, CHR 0xB9]"

text \<open>The f-string of line 82.\<close>

definition invoice_message :: "'w env \<Rightarrow> Invoice \<Rightarrow> pyval \<Rightarrow> int \<Rightarrow> pyval \<Rightarrow> exn + string" where
  "invoice_message E finalized_invoice customer_id amount currency =
     (case major_units amount of Inl err \<Rightarrow> Inl err | Inr a \<Rightarrow>
      case upper_of currency of Inl err \<Rightarrow> Inl err | Inr cur \<Rightarrow>
      case major_units (inv_total finalized_invoice) of Inl err \<Rightarrow> Inl err | Inr t \<Rightarrow>
        Inr (''Invoice '' @ inv_id finalized_invoice @ '' created successfully for customer ''
             @ py_str E customer_id @ '' with amount '' @ rupee @ a @ '' '' @ cur
             @ ''. Total: '' @ rupee @ t @ '' '' @ cur))"

definition create_invoice_try :: "'w env \<Rightarrow> pyval \<Rightarrow> pyval \<Rightarrow> pyval \<Rightarrow> pyval \<Rightarrow> (string, 'w) py" where
  "create_invoice_try E customer_id amount currency description =
     py_bind (py_lift (coerce_amount E amount)) (\<lambda>amount'.
     py_bind (ensure_customer E customer_id) (\<lambda>customer_id'.
     py_bind (py_lift (lower_of currency)) (\<lambda>cur.
     py_bind (Invoice_create E customer_id' cur
                (py_or description (PyStr ''Invoice created by AI agent''))) (\<lambda>invoice.
     py_bind (InvoiceItem_create E customer_id' (inv_id invoice) amount' cur
                (py_or description (PyStr ''Invoice item''))) (\<lambda>invoice_item.
     py_bind (Invoice_finalize_invoice E (inv_id invoice)) (\<lambda>finalized_invoice.
     py_lift (invoice_message E finalized_invoice customer_id' amount' currency)))))))"

definition create_invoice :: "'w env \<Rightarrow> pyval \<Rightarrow> pyval \<Rightarrow> pyval \<Rightarrow> pyval \<Rightarrow> (string, 'w) py" where
  "create_invoice E customer_id amount currency description =
     py_try (create_invoice_try E customer_id amount currency description)
       (\<lambda>err. py_return (''Error creating invoice: '' @ str_exn err))"

definition list_invoices_try :: "'w env \<Rightarrow> pyval \<Rightarrow> (string, 'w) py" where
  "list_invoices_try E customer_id =
     py_bind (if py_truthy customer_id then Invoice_list E (Some customer_id)
              else Invoice_list E None) (\<lambda>invoices.
     py_return (''Found '' @ str_int (int (length invoices)) @ '' invoices.''))"

definition list_invoices :: "'w env \<Rightarrow> pyval \<Rightarrow> (string, 'w) py" where
  "list_invoices E customer_id =
     py_try (list_invoices_try E customer_id)
       (\<lambda>err. py_return (''Error listing invoices: '' @ str_exn err))"

section \<open>The agent turn\<close>

text \<open>
  \<open>handler(**args)\<close>: a key that is no parameter of the handler raises \<open>TypeError\<close>, and
  so does a parameter without default that has no key. \<open>args\<close> is the dict the source
  fills from \<open>function_call.args.items()\<close>, a later item replacing an earlier one.
\<close>

definition unexpected_keyword :: "string \<Rightarrow> string \<Rightarrow> exn" where
  "unexpected_keyword f k =
     Exn TypeError (f @ ''() got an unexpected keyword argument '' @ quoted k)"

definition missing_arguments :: "string \<Rightarrow> string list \<Rightarrow> exn" where
  "missing_arguments f ms =
     Exn TypeError (f @ ''() missing '' @ str_int (int (length ms)) @ '' required positional argument''
       @ (case ms of [a] \<Rightarrow> '': '' @ quoted a
          | _ \<Rightarrow> ''s: '' @ concat (map (\<lambda>a. quoted a @ '' and '') (butlast ms)) @ quoted (last ms)))"

definition first_unexpected :: "string list \<Rightarrow> (string \<times> pyval) list \<Rightarrow> string option" where
  "first_unexpected params items = find (\<lambda>k. k \<notin> set params) (map fst items)"

definition kwarg :: "(string \<rightharpoonup> pyval) \<Rightarrow> string \<Rightarrow> pyval \<Rightarrow> pyval" where
  "kwarg args k dflt = (case args k of None \<Rightarrow> dflt | Some v \<Rightarrow> v)"

definition call_create_customer :: "'w env \<Rightarrow> (string \<times> pyval) list \<Rightarrow> (string, 'w) py" where
  "call_create_customer E items =
     (case first_unexpected [''email'', ''name'', ''description''] items of
        Some k \<Rightarrow> py_raise (unexpected_keyword ''create_customer'' k)
      | None \<Rightarrow>
          (let args = map_of (rev items)
           in case args ''email'' of
                None \<Rightarrow> py_raise (missing_arguments ''create_customer'' [''email''])
              | Some email \<Rightarrow>
                  create_customer E email (kwarg args ''name'' (PyStr []))
                    (kwarg args ''description'' (PyStr []))))"

definition call_create_invoice :: "'w env \<Rightarrow> (string \<times> pyval) list \<Rightarrow> (string, 'w) py" where
  "call_create_invoice E items =
     (case first_unexpected [''customer_id'', ''amount'', ''currency'', ''description''] items of
        Some k \<Rightarrow> py_raise (unexpected_keyword ''create_invoice'' k)
      | None \<Rightarrow>
          (let args = map_of (rev items)
           in case (args ''customer_id'', args ''amount'') of
                (Some customer_id, Some amount) \<Rightarrow>
                  create_invoice E customer_id amount (kwarg args ''currency'' (PyStr ''inr''))
                    (kwarg args ''description'' (PyStr []))
              | (None, Some amount) \<Rightarrow>
                  py_raise (missing_arguments ''create_invoice'' [''customer_id''])
              | (Some customer_id, None) \<Rightarrow>
                  py_raise (missing_arguments ''create_invoice'' [''amount''])
              | (None, None) \<Rightarrow>
                  py_raise (missing_arguments ''create_invoice'' [''customer_id'', ''amount''])))"

definition call_list_invoices :: "'w env \<Rightarrow> (string \<times> pyval) list \<Rightarrow> (string, 'w) py" where
  "call_list_invoices E items =
     (case first_unexpected [''customer_id''] items of
        Some k \<Rightarrow> py_raise (unexpected_keyword ''list_invoices'' k)
      | None \<Rightarrow> list_invoices E (kwarg (map_of (rev items)) ''customer_id'' PyNone))"

text \<open>The icons of lines 210, 220 and 228, as the bytes of the source file.\<close>

definition icon_customer :: string where
  "icon_customer = [CHR 0xC3, CHR 0xB0, CHR 0xC5, CHR 0xB8, CHR 0xE2, CHR 0x80, CHR 0x98, CHR 0xC2, CHR 0xA4]"

definition icon_invoice :: string where
  "icon_invoice = [CHR 0xC3, CHR 0xA2, CHR 0xC5, CHR 0x93, CHR 0xE2, CHR 0x80, CHR 0xA6]"

definition icon_list :: string where
  "icon_list = [CHR 0xC3, CHR 0xB0, CHR 0xC5, CHR 0xB8, CHR 0xE2, CHR 0x80, CHR 0x9C, CHR 0xE2, CHR 0x80, CHR 0xB9]"

text \<open>
  The loop of lines 194 to 228 over \<open>content.parts\<close>. \<open>Some result\<close>: a \<open>return\<close> inside
  the loop; \<open>None\<close>: the loop ran to its end. A part with no function call, or with a
  name that is none of the three, has no branch: the loop goes to the next part.
\<close>

fun dispatch_parts :: "'w env \<Rightarrow> Part list \<Rightarrow> (string option, 'w) py" where
  "dispatch_parts E [] = py_return None"
| "dispatch_parts E (p # ps) =
     (case function_call p of
        None \<Rightarrow> dispatch_parts E ps
      | Some fc \<Rightarrow>
          if fc_name fc = ''create_customer''
          then py_bind (call_create_customer E (fc_args fc))
                 (\<lambda>result. py_return (Some (icon_customer @ '' '' @ result)))
          else if fc_name fc = ''create_invoice''
          then py_bind (call_create_invoice E (fc_args fc))
                 (\<lambda>result. py_return (Some (icon_invoice @ '' '' @ result)))
          else if fc_name fc = ''list_invoices''
          then py_bind (call_list_invoices E (fc_args fc))
                 (\<lambda>result. py_return (Some (icon_list @ '' '' @ result)))
          else dispatch_parts E ps)"


text \<open>Lines 185 to 228: only the first candidate is looked at.\<close>

definition dispatch_response :: "'w env \<Rightarrow> GenerateContentResponse \<Rightarrow> (string option, 'w) py" where
  "dispatch_response E response =
     (case candidates response of
        [] \<Rightarrow> py_return None
      | candidate # rest \<Rightarrow>
          (case content candidate of
             None \<Rightarrow> py_return None
           | Some c \<Rightarrow> dispatch_parts E (parts c)))"


text \<open>
  The state of the process: the outside world, the global \<open>conversation_history\<close>, the
  manager's \<open>active_connections\<close>, and two logs that only record what happened: \<open>printed\<close>,
  the exceptions that the \<open>except\<close> clauses print, and \<open>sent\<close>, the responses that
  \<open>send_text\<close> accepted. (The other \<open>print\<close> calls are left out.)
\<close>

record 'w state =
  world :: 'w
  conversation_history :: "string list"
  active_connections :: "websocket list"
  printed :: "exn list"
  sent :: "(websocket \<times> ChatResponse) list"

definition remote :: "('a, 'w) py \<Rightarrow> ('a, 'w state) py" where
  "remote m = (\<lambda>s. case m (world s) of (r, w) \<Rightarrow> (r, s\<lparr>world := w\<rparr>))"

definition print_error :: "exn \<Rightarrow> (unit, 'w state) py" where
  "print_error err = (\<lambda>s. (Inr (), s\<lparr>printed := printed s @ [err]\<rparr>))"

definition apology :: "exn \<Rightarrow> string" where
  "apology err =
     ''I'' @ [CHR 0x27] @ ''m sorry, I encountered an error while processing your request: ''
       @ str_exn err"

definition run_quotation_agent :: "'w env \<Rightarrow> string \<Rightarrow> (string, 'w state) py" where
  "run_quotation_agent E msg =
     py_try
       (py_bind (remote (generate_content E msg)) (\<lambda>response.
        py_bind (remote (dispatch_response E response)) (\<lambda>r.
          case r of Some result \<Rightarrow> py_return result
                  | None \<Rightarrow> py_lift (response_text response))))
       (\<lambda>err. py_bind (print_error err) (\<lambda>u. py_return (apology err)))"

definition process_chat_message :: "'w env \<Rightarrow> string \<Rightarrow> (string, 'w state) py" where
  "process_chat_message E msg =
     py_try (run_quotation_agent E msg)
       (\<lambda>err. py_bind (print_error err) (\<lambda>u.
          py_return ''I encountered an error while processing your message. Please try again.''))"

section \<open>Connection manager and message protocol\<close>

text \<open>\<open>connect\<close>: \<open>accept\<close>, then \<open>append\<close>. \<open>disconnect\<close>: \<open>list.remove\<close>, which raises
  \<open>ValueError\<close> when the list does not hold the element.\<close>

definition connect :: "'w env \<Rightarrow> websocket \<Rightarrow> (unit, 'w state) py" where
  "connect E ws =
     py_bind (remote (ws_accept E ws))
       (\<lambda>u. (\<lambda>s. (Inr (), s\<lparr>active_connections := active_connections s @ [ws]\<rparr>)))"

definition disconnect :: "websocket \<Rightarrow> (unit, 'w state) py" where
  "disconnect ws =
     (\<lambda>s. if ws \<in> set (active_connections s)
          then (Inr (), s\<lparr>active_connections := remove1 ws (active_connections s)\<rparr>)
          else (Inl (Exn ValueError ''list.remove(x): x not in list''), s))"

definition send_message :: "'w env \<Rightarrow> ChatResponse \<Rightarrow> websocket \<Rightarrow> (unit, 'w state) py" where
  "send_message E r ws =
     py_bind (remote (ws_send_text E ws r)) (\<lambda>u. (\<lambda>s. (Inr (), s\<lparr>sent := sent s @ [(ws, r)]\<rparr>)))"

text \<open>
  \<open>ChatMessage(**message_data)\<close>: the data must be a JSON object whose \<open>session_id\<close> and
  \<open>message\<close> are strings; \<open>user_id\<close> and \<open>message_type\<close> are strings when present,
  \<open>timestamp\<close> a string or null; other keys are ignored.
\<close>

definition str_field :: "json option \<Rightarrow> string option \<Rightarrow> string option" where
  "str_field v dflt = (case v of None \<Rightarrow> dflt | Some (JString s) \<Rightarrow> Some s | Some j \<Rightarrow> None)"

definition optional_str_field :: "json option \<Rightarrow> string option option" where
  "optional_str_field v =
     (case v of None \<Rightarrow> Some None | Some JNull \<Rightarrow> Some None
      | Some (JString s) \<Rightarrow> Some (Some s) | Some j \<Rightarrow> None)"

definition ChatMessage_init :: "'w env \<Rightarrow> json \<Rightarrow> exn + ChatMessage" where
  "ChatMessage_init E message_data =
     (case message_data of
        JObject items \<Rightarrow>
          (let d = map_of (rev items)
           in case (str_field (d ''session_id'') None, str_field (d ''message'') None,
                    str_field (d ''user_id'') (Some ''user''), optional_str_field (d ''timestamp''),
                    str_field (d ''message_type'') (Some ''chat'')) of
                (Some sid, Some m, Some u, Some t, Some mt) \<Rightarrow>
                  Inr \<lparr>cm_session_id = sid, cm_message = m, cm_user_id = u,
                       cm_timestamp = t, cm_message_type = mt\<rparr>
              | other \<Rightarrow> Inl (ChatMessage_error E message_data))
      | other \<Rightarrow> Inl (ChatMessage_error E message_data))"

text \<open>\<open>ChatResponse(session_id=..., message=..., timestamp=...)\<close> with the defaults of the class.\<close>

definition ChatResponse_init :: "string \<Rightarrow> string \<Rightarrow> string \<Rightarrow> ChatResponse" where
  "ChatResponse_init sid m ts =
     \<lparr>session_id = sid, message = m, sender = ''agent'', timestamp = ts,
      message_type = ''response'', success = True, error = None\<rparr>"

definition now :: "'w env \<Rightarrow> (string, 'w state) py" where
  "now E = remote (\<lambda>w. case now_isoformat E w of (t, w') \<Rightarrow> (Inr t, w'))"

definition clear_history :: "(unit, 'w state) py" where
  "clear_history = (\<lambda>s. (Inr (), s\<lparr>conversation_history := []\<rparr>))"

text \<open>
  The test of lines 325 to 328. Under Python's \<open>lower\<close> no character of \<open>/clear\<close>
  comes from a code point outside ASCII, so the comparison is decided as Python decides it.
\<close>

definition is_clear :: "ChatMessage \<Rightarrow> bool" where
  "is_clear chat_message =
     (cm_message_type chat_message = ''clear''
      \<or> py_strip (py_lower (cm_message chat_message)) = ''/clear'')"

text \<open>Lines 325 to 348: the response to a message that passed validation, and its sending.\<close>

definition handle_message :: "'w env \<Rightarrow> websocket \<Rightarrow> ChatMessage \<Rightarrow> (unit, 'w state) py" where
  "handle_message E ws chat_message =
     py_bind
       (if is_clear chat_message
        then py_bind clear_history (\<lambda>u.
             py_bind (now E) (\<lambda>ts.
             py_return (ChatResponse_init (cm_session_id chat_message)
                          ''Chat history has been cleared.'' ts)))
        else py_bind (process_chat_message E (cm_message chat_message)) (\<lambda>agent_response.
             py_bind (now E) (\<lambda>ts.
             py_return (ChatResponse_init (cm_session_id chat_message) agent_response ts))))
       (\<lambda>response. send_message E response ws)"

text \<open>The response of lines 362 to 368, with its fixed message.\<close>

definition generic_error_message :: string where
  "generic_error_message = ''Sorry, I encountered an error processing your message.''"

definition error_response :: "string \<Rightarrow> string \<Rightarrow> exn \<Rightarrow> ChatResponse" where
  "error_response sid ts err =
     (ChatResponse_init sid generic_error_message ts)
       \<lparr>success := False, error := Some (str_exn err)\<rparr>"

text \<open>
  Lines 350 to 358, the clause \<open>except json.JSONDecodeError\<close>: the frame is taken as plain
  chat text. \<open>sid\<close> is the session id that the endpoint made with \<open>uuid4\<close> when the
  connection opened.
\<close>

definition plain_text_fallback :: "'w env \<Rightarrow> websocket \<Rightarrow> string \<Rightarrow> string \<Rightarrow> (unit, 'w state) py" where
  "plain_text_fallback E ws sid data =
     py_bind (process_chat_message E data) (\<lambda>agent_response.
     py_bind (now E) (\<lambda>ts.
     send_message E (ChatResponse_init sid agent_response ts) ws))"

text \<open>Lines 360 to 369, the clause \<open>except Exception as e\<close>.\<close>

definition report_error :: "'w env \<Rightarrow> websocket \<Rightarrow> string \<Rightarrow> exn \<Rightarrow> (unit, 'w state) py" where
  "report_error E ws sid err =
     py_bind (now E) (\<lambda>ts. send_message E (error_response sid ts err) ws)"

text \<open>
  Lines 319 to 369, the body of the receive loop for one frame \<open>data\<close>. The \<open>except\<close>
  clauses are tried in the source's order, and an exception raised inside a clause leaves
  the statement.
\<close>

definition handle_frame :: "'w env \<Rightarrow> websocket \<Rightarrow> string \<Rightarrow> string \<Rightarrow> (unit, 'w state) py" where
  "handle_frame E ws sid data =
     py_try
       (py_bind (py_lift (json_loads E data)) (\<lambda>message_data.
        py_bind (py_lift (ChatMessage_init E message_data)) (\<lambda>chat_message.
        handle_message E ws chat_message)))
       (\<lambda>err. if exn_class_of err = JSONDecodeError then plain_text_fallback E ws sid data
              else report_error E ws sid err)"

text \<open>
  The loop \<open>while True\<close> of line 315 ends only by an exception. \<open>receive_loop E n\<close>
  runs at most \<open>n\<close> rounds: \<open>Some (err, s)\<close> is the exception that ended the loop and the
  state then, \<open>None\<close> says that the loop is still running after \<open>n\<close> frames.
\<close>

fun receive_loop :: "'w env \<Rightarrow> nat \<Rightarrow> websocket \<Rightarrow> string \<Rightarrow> 'w state \<Rightarrow> (exn \<times> 'w state) option" where
  "receive_loop E 0 ws sid s = None"
| "receive_loop E (Suc n) ws sid s =
     (case py_bind (remote (ws_receive_text E ws)) (\<lambda>data. handle_frame E ws sid data) s of
        (Inl err, s') \<Rightarrow> Some (err, s')
      | (Inr u, s') \<Rightarrow> receive_loop E n ws sid s')"

text \<open>
  Lines 371 to 373, the clause \<open>except WebSocketDisconnect\<close> of the outer \<open>try\<close>, on
  what ended the loop: the connection is deregistered after a disconnect, and any other
  exception leaves the endpoint with the connection still registered.
\<close>

definition close_connection :: "websocket \<Rightarrow> (exn \<times> 'w state) option \<Rightarrow> ((exn + unit) \<times> 'w state) option" where
  "close_connection ws ended =
     (case ended of
        None \<Rightarrow> None
      | Some (err, s) \<Rightarrow>
          if exn_class_of err = WebSocketDisconnect then Some (disconnect ws s)
          else Some (Inl err, s))"

text \<open>
  Lines 309 to 373. \<open>connect\<close> and \<open>uuid4\<close> run before the \<open>try\<close>; the session id
  made there is the one the loop uses for every frame.
\<close>

definition websocket_endpoint :: "'w env \<Rightarrow> nat \<Rightarrow> websocket \<Rightarrow> 'w state \<Rightarrow> ((exn + unit) \<times> 'w state) option" where
  "websocket_endpoint E n ws s =
     (case connect E ws s of
        (Inl err, s1) \<Rightarrow> Some (Inl err, s1)
      | (Inr u, s1) \<Rightarrow>
          (case uuid4 E (world s1) of
             (sid, w) \<Rightarrow> close_connection ws (receive_loop E n ws sid (s1\<lparr>world := w\<rparr>))))"

text \<open>
  What the libraries are expected to do: every exception that the JSON decoder, the
  validation of \<open>ChatMessage\<close> or the socket's \<open>send_text\<close> raises has a text.
\<close>

definition carries_text :: "'w env \<Rightarrow> websocket \<Rightarrow> bool" where
  "carries_text E ws =
     ((\<forall>data err. json_loads E data = Inl err \<longrightarrow> str_exn err \<noteq> [])
      \<and> (\<forall>j. str_exn (ChatMessage_error E j) \<noteq> [])
      \<and> (\<forall>r w err w'. ws_send_text E ws r w = (Inl err, w') \<longrightarrow> str_exn err \<noteq> []))"

text \<open>What a response of the endpoint's \<open>except Exception\<close> clause looks like.\<close>

definition flagged :: "exn \<Rightarrow> ChatResponse \<Rightarrow> bool" where
  "flagged err r = (success r \<or> (message r = generic_error_message \<and> error r = Some (str_exn err)))"

section \<open>An environment to run the definitions in\<close>

text \<open>
  A small provider whose world is the amount attached to the invoice being made: an
  invoice item adds its amount, and finalizing reports the sum as the total. It knows one
  customer, \<open>cus_known\<close>, and answers a lookup of any other with the provider's
  \<open>InvalidRequestError\<close>. The examples render no float and read no number from a string,
  so the two runtime functions are not reached.
\<close>

definition function_call_reply :: "string \<Rightarrow> (string \<times> pyval) list \<Rightarrow> GenerateContentResponse" where
  "function_call_reply f items =
     \<lparr>candidates =
        [\<lparr>content = Some \<lparr>parts = [\<lparr>function_call = Some \<lparr>fc_name = f, fc_args = items\<rparr>\<rparr>]\<rparr>\<rparr>],
      response_text = Inl (Exn ValueError ''Could not convert `part.function_call` to text.'')\<rparr>"

definition text_reply :: "string \<Rightarrow> GenerateContentResponse" where
  "text_reply t =
     \<lparr>candidates = [\<lparr>content = Some \<lparr>parts = [\<lparr>function_call = None\<rparr>]\<rparr>\<rparr>],
      response_text = Inr t\<rparr>"

definition example_model :: "string \<Rightarrow> exn + GenerateContentResponse" where
  "example_model m =
     (if m = ''list my invoices'' then Inr (function_call_reply ''list_invoices'' [])
      else if m = ''delete invoice in_42''
      then Inr (function_call_reply ''delete_invoice'' [(''invoice_id'', PyStr ''in_42'')])
      else if m = ''ping''
      then Inl (Exn OtherException ''503 The model is overloaded. Please try again later.'')
      else Inr (text_reply ''How can I help you with your invoices?''))"

definition frame_delete :: string where
  \<open>frame_delete = ''{"session_id": "s1", "message": "delete invoice in_42"}''\<close>

definition frame_ping :: string where
  \<open>frame_ping = ''{"session_id": "s1", "message": "ping"}''\<close>

definition frame_clear :: string where
  \<open>frame_clear = ''{"session_id": "s1", "message": " /Clear ", "user_id": "u7"}''\<close>

definition frame_hello :: string where
  \<open>frame_hello = ''{"session_id": "abc-123", "message": "hello", "message_type": "chat"}''\<close>

definition frame_no_session :: string where
  \<open>frame_no_session = ''{"message": "hello"}''\<close>

definition example_loads :: "string \<Rightarrow> exn + json" where
  "example_loads data =
     (if data = frame_delete
      then Inr (JObject [(''session_id'', JString ''s1''), (''message'', JString ''delete invoice in_42'')])
      else if data = frame_ping
      then Inr (JObject [(''session_id'', JString ''s1''), (''message'', JString ''ping'')])
      else if data = frame_clear
      then Inr (JObject [(''session_id'', JString ''s1''), (''message'', JString '' /Clear ''),
                         (''user_id'', JString ''u7'')])
      else if data = frame_hello
      then Inr (JObject [(''session_id'', JString ''abc-123''), (''message'', JString ''hello''),
                         (''message_type'', JString ''chat'')])
      else if data = frame_no_session
      then Inr (JObject [(''message'', JString ''hello'')])
      else Inl (Exn JSONDecodeError ''Expecting value: line 1 column 1 (char 0)''))"

definition example_env :: "int env" where
  "example_env =
     \<lparr>Customer_create = (\<lambda>email name description. py_return \<lparr>cus_id = ''cus_demo1''\<rparr>),
      Customer_retrieve = (\<lambda>customer.
        if customer = PyStr ''cus_known'' then py_return \<lparr>cus_id = ''cus_known''\<rparr>
        else py_raise (Exn InvalidRequestError ''No such customer'')),
      Invoice_create = (\<lambda>customer currency description.
        (\<lambda>w. (Inr \<lparr>inv_id = ''in_1'', inv_total = 0\<rparr>, 0))),
      InvoiceItem_create = (\<lambda>customer invoice amount currency description.
        (\<lambda>w. (Inr (), w + amount))),
      Invoice_finalize_invoice = (\<lambda>invoice. (\<lambda>w. (Inr \<lparr>inv_id = invoice, inv_total = w\<rparr>, w))),
      Invoice_list = (\<lambda>customer. py_return []),
      generate_content = (\<lambda>m. py_lift (example_model m)),
      float_of_str = (\<lambda>s. Inl (Exn ValueError ''could not convert string to float'')),
      float_repr = (\<lambda>x. ''nan''),
      json_loads = example_loads,
      ChatMessage_error = (\<lambda>j. Exn ValidationError ''1 validation error for ChatMessage''),
      now_isoformat = (\<lambda>w. (''2025-01-01T12:00:00'', w)),
      uuid4 = (\<lambda>w. (''7c9e6679-7425-40de-944b-e07fc1f90ae7'', w)),
      ws_accept = (\<lambda>ws. py_return ()),
      ws_receive_text = (\<lambda>ws. py_raise (Exn WebSocketDisconnect ''(1000, None)'')),
      ws_send_text = (\<lambda>ws r. py_return ())\<rparr>"

text \<open>The same provider for a customer with a ten percent discount: the total is what is due.\<close>

definition discount_env :: "int env" where
  "discount_env =
     example_env\<lparr>Invoice_finalize_invoice :=
       (\<lambda>invoice. (\<lambda>w. (Inr \<lparr>inv_id = invoice, inv_total = w * 9 div 10\<rparr>, w)))\<rparr>"

text \<open>The same provider when it cannot be reached.\<close>

definition offline_env :: "int env" where
  "offline_env =
     example_env\<lparr>Customer_create := (\<lambda>email name description. py_raise (Exn OtherException ''Connection error'')),
                 Invoice_create := (\<lambda>customer currency description. py_raise (Exn OtherException ''Connection error'')),
                 Invoice_list := (\<lambda>customer. py_raise (Exn OtherException ''Connection error''))\<rparr>"

text \<open>
  A frame of a thousand opening brackets is no JSON text; Python's decoder gives up on it
  with \<open>RecursionError\<close>, which is no \<open>JSONDecodeError\<close>.
\<close>

definition frame_deep :: string where
  "frame_deep = replicate 1000 CHR ''[''"

definition deep_env :: "int env" where
  "deep_env =
     example_env\<lparr>json_loads := (\<lambda>data.
       if data = frame_deep
       then Inl (Exn RecursionError
                  ''maximum recursion depth exceeded while decoding a JSON array from a unicode string'')
       else example_loads data)\<rparr>"

text \<open>
  The same provider with a client that sends one frame of plain text and leaves; no
  invoice is made, and the world counts the frames received.
\<close>

definition visitor_env :: "int env" where
  "visitor_env =
     example_env\<lparr>ws_receive_text := (\<lambda>ws w.
       if w = 0 then (Inr ''hello there'', 1)
       else (Inl (Exn WebSocketDisconnect ''(1000, None)''), w))\<rparr>"

definition example_state :: "int state" where
  "example_state =
     \<lparr>world = 0, conversation_history = [''an earlier turn''], active_connections = [1],
      printed = [], sent = []\<rparr>"



definition chat :: "string \<Rightarrow> string \<Rightarrow> ChatMessage" where
  "chat sid m = \<lparr>cm_session_id = sid, cm_message = m, cm_user_id = ''user'',
     cm_timestamp = None, cm_message_type = ''chat''\<rparr>"

section \<open>Basic facts\<close>

lemma py_bind_Inr: "m s = (Inr x, s') \<Longrightarrow> py_bind m f s = f x s'"
  by (simp add: py_bind_def)

lemma py_bind_Inl: "m s = (Inl err, s') \<Longrightarrow> py_bind m f s = (Inl err, s')"
  by (simp add: py_bind_def)

lemma py_try_total:
  "py_try m (\<lambda>err. py_return (h err)) s =
     (case m s of (Inl err, s') \<Rightarrow> (Inr (h err), s') | (Inr x, s') \<Rightarrow> (Inr x, s'))"
  by (simp add: py_try_def py_return_def split: prod.splits sum.splits)

lemmas py_defs = py_return_def py_raise_def py_lift_def py_bind_def py_try_def

text \<open>The agent turn changes the world and the log of printed exceptions, nothing else.\<close>

lemma run_quotation_agent_returns:
  "\<exists>r w p. run_quotation_agent E m s = (Inr r, s\<lparr>world := w, printed := printed s @ p\<rparr>)"
proof (cases "generate_content E m (world s)")
  case (Pair g w)
  show ?thesis
  proof (cases g)
    case (Inl err)
    with Pair have "run_quotation_agent E m s = (Inr (apology err), s\<lparr>world := w, printed := printed s @ [err]\<rparr>)"
      by (simp add: run_quotation_agent_def py_defs remote_def print_error_def)
    then show ?thesis by blast
  next
    case (Inr response)
    obtain d w2 where d: "dispatch_response E response w = (d, w2)" by (cases "dispatch_response E response w")
    show ?thesis
    proof (cases d)
      case (Inl err)
      with Pair Inr d have "run_quotation_agent E m s = (Inr (apology err), s\<lparr>world := w2, printed := printed s @ [err]\<rparr>)"
        by (simp add: run_quotation_agent_def py_defs remote_def print_error_def)
      then show ?thesis by blast
    next
      case r: (Inr r)
      show ?thesis
      proof (cases r)
        case None
        show ?thesis
        proof (cases "response_text response")
          case (Inl err)
          with Pair Inr d r None have "run_quotation_agent E m s = (Inr (apology err), s\<lparr>world := w2, printed := printed s @ [err]\<rparr>)"
            by (simp add: run_quotation_agent_def py_defs remote_def print_error_def)
          then show ?thesis by blast
        next
          case t: (Inr t)
          with Pair Inr d r None have "run_quotation_agent E m s = (Inr t, s\<lparr>world := w2, printed := printed s @ []\<rparr>)"
            by (simp add: run_quotation_agent_def py_defs remote_def print_error_def)
          then show ?thesis by blast
        qed
      next
        case (Some result)
        with Pair Inr d r have "run_quotation_agent E m s = (Inr result, s\<lparr>world := w2, printed := printed s @ []\<rparr>)"
          by (simp add: run_quotation_agent_def py_defs remote_def print_error_def)
        then show ?thesis by blast
      qed
    qed
  qed
qed

lemma process_chat_message_eq: "process_chat_message E m s = run_quotation_agent E m s"
proof -
  obtain r w p where "run_quotation_agent E m s = (Inr r, s\<lparr>world := w, printed := printed s @ p\<rparr>)"
    using run_quotation_agent_returns[of E m s] by blast
  then show ?thesis by (simp add: process_chat_message_def py_try_def)
qed

lemma process_chat_message_returns:
  "\<exists>r w p. process_chat_message E m s = (Inr r, s\<lparr>world := w, printed := printed s @ p\<rparr>)"
  by (simp add: process_chat_message_eq run_quotation_agent_returns)

lemma now_eq:
  "now E s = (Inr (fst (now_isoformat E (world s))), s\<lparr>world := snd (now_isoformat E (world s))\<rparr>)"
  by (simp add: now_def remote_def split: prod.splits)

lemma send_message_cases:
  "(\<exists>w. ws_send_text E ws r (world s) = (Inr (), w)
        \<and> send_message E r ws s = (Inr (), s\<lparr>world := w, sent := sent s @ [(ws, r)]\<rparr>))
   \<or> (\<exists>err w. ws_send_text E ws r (world s) = (Inl err, w)
        \<and> send_message E r ws s = (Inl err, s\<lparr>world := w\<rparr>))"
  by (cases "ws_send_text E ws r (world s)") (auto simp: send_message_def py_defs remote_def split: sum.splits)






lemma handle_message_clear:
  assumes "is_clear cm"
  shows "handle_message E ws cm s =
           send_message E (ChatResponse_init (cm_session_id cm) ''Chat history has been cleared.''
                             (fst (now_isoformat E (world s)))) ws
             (s\<lparr>conversation_history := [], world := snd (now_isoformat E (world s))\<rparr>)"
  using assms by (simp add: handle_message_def py_defs clear_history_def now_eq)

lemma handle_message_chat:
  assumes "\<not> is_clear cm" and "process_chat_message E (cm_message cm) s = (Inr a, s1)"
  shows "handle_message E ws cm s =
           send_message E (ChatResponse_init (cm_session_id cm) a (fst (now_isoformat E (world s1)))) ws
             (s1\<lparr>world := snd (now_isoformat E (world s1))\<rparr>)"
  using assms by (simp add: handle_message_def py_defs now_eq)


text \<open>A message that passed validation gets one response, built with the defaults.\<close>

lemma handle_message_response:
  "\<exists>m ts s1. sent s1 = sent s
     \<and> handle_message E ws cm s = send_message E (ChatResponse_init (cm_session_id cm) m ts) ws s1"
proof (cases "is_clear cm")
  case True
  have "sent (s\<lparr>conversation_history := [], world := snd (now_isoformat E (world s))\<rparr>) = sent s" by simp
  with handle_message_clear [OF True] show ?thesis by blast
next
  case False
  obtain a w p where a: "process_chat_message E (cm_message cm) s = (Inr a, s\<lparr>world := w, printed := printed s @ p\<rparr>)"
    using process_chat_message_returns [of E "cm_message cm" s] by blast
  have "sent (s\<lparr>world := w, printed := printed s @ p\<rparr>\<lparr>world := snd (now_isoformat E (world (s\<lparr>world := w, printed := printed s @ p\<rparr>)))\<rparr>) = sent s"
    by simp
  with handle_message_chat [OF False a] show ?thesis by blast
qed

lemma handle_frame_valid:
  assumes "json_loads E data = Inr j" and "ChatMessage_init E j = Inr cm"
  shows "handle_frame E ws sid data s =
           py_try (handle_message E ws cm)
             (\<lambda>err. if exn_class_of err = JSONDecodeError then plain_text_fallback E ws sid data
                    else report_error E ws sid err) s"
  using assms by (simp add: handle_frame_def py_defs)

lemma handle_frame_not_json:
  assumes "json_loads E data = Inl err" and "exn_class_of err = JSONDecodeError"
  shows "handle_frame E ws sid data s = plain_text_fallback E ws sid data s"
  using assms by (simp add: handle_frame_def py_defs)

lemma plain_text_fallback_eq:
  assumes "process_chat_message E data s = (Inr a, s1)"
  shows "plain_text_fallback E ws sid data s =
           send_message E (ChatResponse_init sid a (fst (now_isoformat E (world s1)))) ws
             (s1\<lparr>world := snd (now_isoformat E (world s1))\<rparr>)"
  using assms by (simp add: plain_text_fallback_def py_defs now_eq)

lemma report_error_eq:
  "report_error E ws sid err s =
     send_message E (error_response sid (fst (now_isoformat E (world s))) err) ws
       (s\<lparr>world := snd (now_isoformat E (world s))\<rparr>)"
  by (simp add: report_error_def py_defs now_eq)


lemmas string_defs = py_lower_def py_upper_def lower_char_def upper_char_def py_strip_def whitespace_def



lemmas frame_defs = frame_delete_def frame_ping_def frame_clear_def frame_hello_def frame_no_session_def

lemmas agent_defs = process_chat_message_def run_quotation_agent_def dispatch_response_def
  print_error_def remote_def now_def send_message_def py_defs

lemmas example_defs = example_env_def example_model_def example_loads_def example_state_def
  function_call_reply_def text_reply_def chat_def frame_defs

lemma validate_hello:
  "ChatMessage_init example_env
     (JObject [(''session_id'', JString ''abc-123''), (''message'', JString ''hello''),
               (''message_type'', JString ''chat'')])
   = Inr (chat ''abc-123'' ''hello'')"
  by (simp add: ChatMessage_init_def str_field_def optional_str_field_def chat_def)

lemma not_clear_hello: "\<not> is_clear (chat sid ''hello'')"
  by (simp add: is_clear_def chat_def) code_simp






lemma send_message_sent:
  "\<exists>new. sent (snd (send_message E r ws s)) = sent s @ new \<and> set new \<subseteq> {(ws, r)}"
proof -
  from send_message_cases [of E ws r s] show ?thesis
  proof
    assume "\<exists>w. ws_send_text E ws r (world s) = (Inr (), w)
        \<and> send_message E r ws s = (Inr (), s\<lparr>world := w, sent := sent s @ [(ws, r)]\<rparr>)"
    then have "sent (snd (send_message E r ws s)) = sent s @ [(ws, r)]" by auto
    then show ?thesis by auto
  next
    assume "\<exists>err w. ws_send_text E ws r (world s) = (Inl err, w)
        \<and> send_message E r ws s = (Inl err, s\<lparr>world := w\<rparr>)"
    then have "sent (snd (send_message E r ws s)) = sent s @ []" by auto
    then show ?thesis by (metis empty_set empty_subsetI)
  qed
qed

lemma except_clauses_sent:
  "\<exists>new. sent (snd ((if exn_class_of err = JSONDecodeError then plain_text_fallback E ws sid data
                      else report_error E ws sid err) s)) = sent s @ new
         \<and> (\<forall>x \<in> set new. fst x = ws \<and> flagged err (snd x))"
proof (cases "exn_class_of err = JSONDecodeError")
  case True
  obtain a w p where a: "process_chat_message E data s = (Inr a, s\<lparr>world := w, printed := printed s @ p\<rparr>)"
    using process_chat_message_returns [of E data s] by blast
  let ?s1 = "s\<lparr>world := w, printed := printed s @ p\<rparr>"
  let ?r = "ChatResponse_init sid a (fst (now_isoformat E (world ?s1)))"
  let ?s2 = "?s1\<lparr>world := snd (now_isoformat E (world ?s1))\<rparr>"
  obtain new where "sent (snd (send_message E ?r ws ?s2)) = sent ?s2 @ new" and "set new \<subseteq> {(ws, ?r)}"
    using send_message_sent [of E ?r ws ?s2] by blast
  moreover have "flagged err ?r" by (simp add: flagged_def ChatResponse_init_def)
  ultimately show ?thesis
    using True by (auto simp: plain_text_fallback_eq [OF a])
next
  case False
  let ?r = "error_response sid (fst (now_isoformat E (world s))) err"
  let ?s2 = "s\<lparr>world := snd (now_isoformat E (world s))\<rparr>"
  obtain new where "sent (snd (send_message E ?r ws ?s2)) = sent ?s2 @ new" and "set new \<subseteq> {(ws, ?r)}"
    using send_message_sent [of E ?r ws ?s2] by blast
  moreover have "flagged err ?r" by (simp add: flagged_def error_response_def ChatResponse_init_def)
  ultimately show ?thesis
    using False by (auto simp: report_error_eq)
qed

lemma ChatMessage_init_error: "ChatMessage_init E j = Inl err \<Longrightarrow> err = ChatMessage_error E j"
  by (auto simp: ChatMessage_init_def Let_def split: json.splits prod.splits option.splits)

text \<open>
  The responses that the handling of one frame sends: each goes to the frame's socket,
  and one that is not a success was made for an exception \<open>err\<close> that the decoder, the
  validation or the socket raised.
\<close>

lemma handle_frame_sent:
  "\<exists>new. sent (snd (handle_frame E ws sid data s)) = sent s @ new
     \<and> (\<forall>x \<in> set new. fst x = ws
           \<and> (success (snd x)
               \<or> (\<exists>err. flagged err (snd x)
                    \<and> (json_loads E data = Inl err
                        \<or> (\<exists>j. err = ChatMessage_error E j)
                        \<or> (\<exists>r w w'. ws_send_text E ws r w = (Inl err, w'))))))"
proof (cases "json_loads E data")
  case (Inl err)
  have hf: "handle_frame E ws sid data s =
    (if exn_class_of err = JSONDecodeError then plain_text_fallback E ws sid data
     else report_error E ws sid err) s"
    using Inl by (simp add: handle_frame_def py_defs)
  from except_clauses_sent [of err E ws sid data s] Inl show ?thesis
    unfolding hf by blast
next
  case (Inr j)
  show ?thesis
  proof (cases "ChatMessage_init E j")
    case (Inl err)
    have hf: "handle_frame E ws sid data s =
      (if exn_class_of err = JSONDecodeError then plain_text_fallback E ws sid data
       else report_error E ws sid err) s"
      using Inr Inl by (simp add: handle_frame_def py_defs)
    from except_clauses_sent [of err E ws sid data s] ChatMessage_init_error [OF Inl] show ?thesis
      unfolding hf by blast
  next
    case cm: (Inr cm)
    obtain m ts s1 where s1: "sent s1 = sent s"
      and hm: "handle_message E ws cm s = send_message E (ChatResponse_init (cm_session_id cm) m ts) ws s1"
      using handle_message_response [where s = s and E = E and ws = ws and cm = cm] by blast
    let ?r = "ChatResponse_init (cm_session_id cm) m ts"
    have ok: "success ?r" by (simp add: ChatResponse_init_def)
    from send_message_cases [of E ws ?r s1] show ?thesis
    proof
      assume "\<exists>w. ws_send_text E ws ?r (world s1) = (Inr (), w)
        \<and> send_message E ?r ws s1 = (Inr (), s1\<lparr>world := w, sent := sent s1 @ [(ws, ?r)]\<rparr>)"
      then obtain w where "send_message E ?r ws s1 = (Inr (), s1\<lparr>world := w, sent := sent s1 @ [(ws, ?r)]\<rparr>)"
        by blast
      then have "sent (snd (handle_frame E ws sid data s)) = sent s @ [(ws, ?r)]"
        by (simp add: handle_frame_valid [OF Inr cm] py_try_def hm s1)
      with ok show ?thesis by auto
    next
      assume "\<exists>err w. ws_send_text E ws ?r (world s1) = (Inl err, w)
        \<and> send_message E ?r ws s1 = (Inl err, s1\<lparr>world := w\<rparr>)"
      then obtain err w where raised: "ws_send_text E ws ?r (world s1) = (Inl err, w)"
        and sm: "send_message E ?r ws s1 = (Inl err, s1\<lparr>world := w\<rparr>)"
        by blast
      have hf: "handle_frame E ws sid data s =
        (if exn_class_of err = JSONDecodeError then plain_text_fallback E ws sid data
         else report_error E ws sid err) (s1\<lparr>world := w\<rparr>)"
        by (simp add: handle_frame_valid [OF Inr cm] py_try_def hm sm)
      obtain new where n1: "sent (snd ((if exn_class_of err = JSONDecodeError then plain_text_fallback E ws sid data
                      else report_error E ws sid err) (s1\<lparr>world := w\<rparr>))) = sent (s1\<lparr>world := w\<rparr>) @ new"
        and n2: "\<forall>x \<in> set new. fst x = ws \<and> flagged err (snd x)"
        using except_clauses_sent [of err E ws sid data "s1\<lparr>world := w\<rparr>"] by blast
      from n1 s1 have "sent (snd (handle_frame E ws sid data s)) = sent s @ new"
        by (simp add: hf)
      moreover from n2 raised have "\<forall>x \<in> set new. fst x = ws
           \<and> (success (snd x)
               \<or> (\<exists>err. flagged err (snd x)
                    \<and> (json_loads E data = Inl err
                        \<or> (\<exists>j. err = ChatMessage_error E j)
                        \<or> (\<exists>r w w'. ws_send_text E ws r w = (Inl err, w')))))"
        by blast
      ultimately show ?thesis by blast
    qed
  qed
qed



lemma carries_text_example: "carries_text example_env 1"
  by (auto simp: carries_text_def example_env_def example_loads_def py_defs split: if_splits)

text \<open>A successful \<open>try\<close> block of \<open>create_invoice\<close>: every step returned, in the source's order.\<close>

lemma create_invoice_try_success:
  assumes "create_invoice_try E customer_id amount currency description w = (Inr r, w')"
  shows "\<exists>amount' cid w1 cur invoice w2 w3 fin.
           coerce_amount E amount = Inr amount'
         \<and> ensure_customer E customer_id w = (Inr cid, w1)
         \<and> lower_of currency = Inr cur
         \<and> Invoice_create E cid cur (py_or description (PyStr ''Invoice created by AI agent'')) w1
             = (Inr invoice, w2)
         \<and> InvoiceItem_create E cid (inv_id invoice) amount' cur
               (py_or description (PyStr ''Invoice item'')) w2 = (Inr (), w3)
         \<and> Invoice_finalize_invoice E (inv_id invoice) w3 = (Inr fin, w')
         \<and> invoice_message E fin cid amount' currency = Inr r"
  using assms unfolding create_invoice_try_def py_defs
  by (auto split: sum.splits prod.splits)

lemma ensure_customer_success:
  assumes "ensure_customer E customer_id w = (Inr cid, w1)"
  shows "(\<exists>c. Customer_retrieve E customer_id w = (Inr c, w1) \<and> cid = customer_id)
       \<or> (\<exists>err w0 demo. Customer_retrieve E customer_id w = (Inl err, w0)
             \<and> exn_class_of err = InvalidRequestError
             \<and> demo_customer E customer_id w0 = (Inr demo, w1) \<and> cid = PyStr (cus_id demo))"
  using assms unfolding ensure_customer_def py_defs
  by (auto split: sum.splits prod.splits if_splits)

text \<open>The success message shows the customer id: two ids that render differently give two messages.\<close>

lemma invoice_message_customer:
  assumes "invoice_message E fin c1 a currency = Inr r" and "invoice_message E fin c2 a currency = Inr r"
  shows "py_str E c1 = py_str E c2"
  using assms unfolding invoice_message_def
  by (auto split: sum.splits)


text \<open>One round of the receive loop on a frame that arrived, and the endpoint once connected.\<close>

lemma receive_loop_frame:
  assumes "ws_receive_text E ws w1 = (Inr data, w2)"
  shows "receive_loop E (Suc n) ws sid (s\<lparr>world := w1\<rparr>) =
           (case handle_frame E ws sid data (s\<lparr>world := w2\<rparr>) of
              (Inl err, s') \<Rightarrow> Some (err, s')
            | (Inr u, s') \<Rightarrow> receive_loop E n ws sid s')"
  using assms by (simp add: py_bind_def remote_def)

lemma websocket_endpoint_connected:
  assumes "connect E ws s = (Inr (), s1)" and "uuid4 E (world s1) = (sid, w1)"
  shows "websocket_endpoint E n ws s = close_connection ws (receive_loop E n ws sid (s1\<lparr>world := w1\<rparr>))"
  using assms by (simp add: websocket_endpoint_def)

lemma handle_frame_other:
  assumes "json_loads E data = Inl err" and "exn_class_of err \<noteq> JSONDecodeError"
  shows "handle_frame E ws sid data s = report_error E ws sid err s"
  using assms by (simp add: handle_frame_def py_defs)

text \<open>The first frame of a connection, once its handling has come to the sending of a response.\<close>

lemma endpoint_first_frame:
  assumes c: "connect E ws s = (Inr (), s1)"
    and u: "uuid4 E (world s1) = (sid, w1)"
    and r: "ws_receive_text E ws w1 = (Inr data, w2)"
    and hf: "handle_frame E ws sid data (s1\<lparr>world := w2\<rparr>) = send_message E resp ws s4"
  shows "(\<forall>w4. ws_send_text E ws resp (world s4) = (Inr (), w4) \<longrightarrow>
            websocket_endpoint E (Suc n) ws s
              = close_connection ws
                  (receive_loop E n ws sid (s4\<lparr>world := w4, sent := sent s4 @ [(ws, resp)]\<rparr>)))
       \<and> (\<forall>e w4. ws_send_text E ws resp (world s4) = (Inl e, w4) \<longrightarrow>
            websocket_endpoint E (Suc n) ws s = close_connection ws (Some (e, s4\<lparr>world := w4\<rparr>)))"
proof -
  have ep: "websocket_endpoint E (Suc n) ws s =
      close_connection ws
        (case send_message E resp ws s4 of
           (Inl err, s') \<Rightarrow> Some (err, s')
         | (Inr u, s') \<Rightarrow> receive_loop E n ws sid s')"
    by (simp only: websocket_endpoint_connected [OF c u] receive_loop_frame [OF r] hf)
  show ?thesis
    by (simp add: ep send_message_def py_bind_def remote_def)
qed

section \<open>The claims\<close>

text \<open>
  C5. None of the three handlers lets an exception out, whatever the environment and the
  arguments are: each returns a string, and when anything inside its \<open>try\<close> block
  raises (a remote call of the provider or a step in between), the string is the
  handler's error prefix followed by the text of the exception.
\<close>

theorem handlers_never_raise:
  "(\<exists>r w'. create_customer E email name description w = (Inr r, w'))
   \<and> (\<exists>r w'. create_invoice E customer_id amount currency description' w = (Inr r, w'))
   \<and> (\<exists>r w'. list_invoices E customer w = (Inr r, w'))
   \<and> (\<forall>err w'. create_customer_try E email name description w = (Inl err, w') \<longrightarrow>
          create_customer E email name description w
            = (Inr (''Error creating customer: '' @ str_exn err), w'))
   \<and> (\<forall>err w'. create_invoice_try E customer_id amount currency description' w = (Inl err, w') \<longrightarrow>
          create_invoice E customer_id amount currency description' w
            = (Inr (''Error creating invoice: '' @ str_exn err), w'))
   \<and> (\<forall>err w'. list_invoices_try E customer w = (Inl err, w') \<longrightarrow>
          list_invoices E customer w = (Inr (''Error listing invoices: '' @ str_exn err), w'))"
  unfolding create_customer_def create_invoice_def list_invoices_def py_try_total
  by (auto split: prod.splits sum.splits)

text \<open>With the provider out of reach, each handler returns its error string.\<close>

theorem handlers_never_raise_witness:
  "create_customer_try offline_env (PyStr ''ann@example.com'') (PyStr []) (PyStr []) 0
     = (Inl (Exn OtherException ''Connection error''), 0)
   \<and> create_customer offline_env (PyStr ''ann@example.com'') (PyStr []) (PyStr []) 0
     = (Inr ''Error creating customer: Connection error'', 0)
   \<and> create_invoice_try offline_env (PyStr ''cus_known'') (PyFloat (Finite 1000 0)) (PyStr ''inr'') (PyStr []) 0
     = (Inl (Exn OtherException ''Connection error''), 0)
   \<and> create_invoice offline_env (PyStr ''cus_known'') (PyFloat (Finite 1000 0)) (PyStr ''inr'') (PyStr []) 0
     = (Inr ''Error creating invoice: Connection error'', 0)
   \<and> list_invoices_try offline_env PyNone 0 = (Inl (Exn OtherException ''Connection error''), 0)
   \<and> list_invoices offline_env PyNone 0 = (Inr ''Error listing invoices: Connection error'', 0)"
proof -
  have c: "create_customer_try offline_env (PyStr ''ann@example.com'') (PyStr []) (PyStr []) 0
             = (Inl (Exn OtherException ''Connection error''), 0)"
    by (simp add: create_customer_try_def offline_env_def example_env_def py_defs split_first_def py_or_def)
  have i: "create_invoice_try offline_env (PyStr ''cus_known'') (PyFloat (Finite 1000 0)) (PyStr ''inr'') (PyStr []) 0
             = (Inl (Exn OtherException ''Connection error''), 0)"
    by (simp add: create_invoice_try_def ensure_customer_def coerce_amount_def offline_env_def
        example_env_def py_defs py_or_def)
  have l: "list_invoices_try offline_env PyNone 0 = (Inl (Exn OtherException ''Connection error''), 0)"
    by (simp add: list_invoices_try_def offline_env_def example_env_def py_defs)
  note h = handlers_never_raise [of offline_env "PyStr ''ann@example.com''" "PyStr []" "PyStr []" 0
      "PyStr ''cus_known''" "PyFloat (Finite 1000 0)" "PyStr ''inr''" "PyStr []" PyNone]
  from h c have c': "create_customer offline_env (PyStr ''ann@example.com'') (PyStr []) (PyStr []) 0
      = (Inr ''Error creating customer: Connection error'', 0)"
    by simp
  from h i have i': "create_invoice offline_env (PyStr ''cus_known'') (PyFloat (Finite 1000 0)) (PyStr ''inr'') (PyStr []) 0
      = (Inr ''Error creating invoice: Connection error'', 0)"
    by simp
  from h l have l': "list_invoices offline_env PyNone 0 = (Inr ''Error listing invoices: Connection error'', 0)"
    by simp
  from c c' i i' l l' show ?thesis by simp
qed

text \<open>
  C7, as the code has it. \<open>disconnect\<close> is \<open>list.remove\<close>: on a connection that the
  active list holds, each connection being there once, it returns and the connection is
  registered no more; called again on that connection it raises \<open>ValueError\<close> and
  changes nothing.
\<close>

theorem disconnect_once:
  assumes "ws \<in> set (active_connections s)" and "distinct (active_connections s)"
  shows "\<exists>s'. disconnect ws s = (Inr (), s')
            \<and> set (active_connections s') = set (active_connections s) - {ws}
            \<and> disconnect ws s' = (Inl (Exn ValueError ''list.remove(x): x not in list''), s')"
  using assms by (simp add: disconnect_def)

theorem disconnect_once_witness:
  "1 \<in> set (active_connections example_state) \<and> distinct (active_connections example_state)
   \<and> disconnect 1 example_state = (Inr (), example_state\<lparr>active_connections := []\<rparr>)
   \<and> disconnect 1 (example_state\<lparr>active_connections := []\<rparr>)
        = (Inl (Exn ValueError ''list.remove(x): x not in list''), example_state\<lparr>active_connections := []\<rparr>)"
proof -
  have a: "1 \<in> set (active_connections example_state)" and d: "distinct (active_connections example_state)"
    by (simp_all add: example_state_def)
  from disconnect_once [OF a d] show ?thesis
    using a d by (simp add: disconnect_def example_state_def)
qed

text \<open>The claim as stated fails: the second call on the same connection faults.\<close>

theorem disconnect_twice_counterexample:
  "fst (disconnect 1 (snd (disconnect 1 example_state)))
     = Inl (Exn ValueError ''list.remove(x): x not in list'')"
  by (simp add: disconnect_def example_state_def)



text \<open>
  C10. A frame that decodes and fits the \<open>ChatMessage\<close> fields: the one response that the
  \<open>try\<close> block hands to the socket carries the session id of the inbound message, and
  when the socket accepts it the frame is done, with that response the only one sent.
  (The endpoint's own session id goes out in the two \<open>except\<close> clauses only.)
\<close>

theorem session_id_echoed:
  assumes "json_loads E data = Inr j" and "ChatMessage_init E j = Inr cm"
  shows "\<exists>r s1. session_id r = cm_session_id cm \<and> sent s1 = sent s
           \<and> handle_message E ws cm s = send_message E r ws s1
           \<and> (\<forall>s2. send_message E r ws s1 = (Inr (), s2) \<longrightarrow>
                 handle_frame E ws sid data s = (Inr (), s2) \<and> sent s2 = sent s @ [(ws, r)])"
proof -
  obtain m ts s1 where s1: "sent s1 = sent s"
    and hm: "handle_message E ws cm s = send_message E (ChatResponse_init (cm_session_id cm) m ts) ws s1"
    using handle_message_response [where s = s and E = E and ws = ws and cm = cm] by blast
  let ?r = "ChatResponse_init (cm_session_id cm) m ts"
  have "session_id ?r = cm_session_id cm" by (simp add: ChatResponse_init_def)
  moreover have "\<forall>s2. send_message E ?r ws s1 = (Inr (), s2) \<longrightarrow>
                 handle_frame E ws sid data s = (Inr (), s2) \<and> sent s2 = sent s @ [(ws, ?r)]"
  proof (intro allI impI)
    fix s2 assume ok: "send_message E ?r ws s1 = (Inr (), s2)"
    then have "handle_frame E ws sid data s = (Inr (), s2)"
      by (simp add: handle_frame_valid [OF assms] py_try_def hm)
    moreover from ok send_message_cases [of E ws ?r s1] s1 have "sent s2 = sent s @ [(ws, ?r)]"
      by auto
    ultimately show "handle_frame E ws sid data s = (Inr (), s2) \<and> sent s2 = sent s @ [(ws, ?r)]" ..
  qed
  ultimately show ?thesis using s1 hm by blast
qed

theorem session_id_echoed_witness:
  "json_loads example_env frame_hello
     = Inr (JObject [(''session_id'', JString ''abc-123''), (''message'', JString ''hello''),
                     (''message_type'', JString ''chat'')])
   \<and> handle_frame example_env 1 ''7c9e6679'' frame_hello example_state
     = (Inr (), example_state\<lparr>sent :=
          [(1, ChatResponse_init ''abc-123'' ''How can I help you with your invoices?'' ''2025-01-01T12:00:00'')]\<rparr>)
   \<and> session_id (ChatResponse_init ''abc-123'' ''How can I help you with your invoices?'' ''2025-01-01T12:00:00'')
     = ''abc-123''"
proof -
  have l: "json_loads example_env frame_hello
     = Inr (JObject [(''session_id'', JString ''abc-123''), (''message'', JString ''hello''),
                     (''message_type'', JString ''chat'')])"
    by (simp add: example_defs)
  have m: "handle_message example_env 1 (chat ''abc-123'' ''hello'') example_state
     = (Inr (), example_state\<lparr>sent :=
          [(1, ChatResponse_init ''abc-123'' ''How can I help you with your invoices?'' ''2025-01-01T12:00:00'')]\<rparr>)"
    using not_clear_hello [of "''abc-123''"] by (simp add: handle_message_def agent_defs example_defs)
  obtain r s1 where hm: "handle_message example_env 1 (chat ''abc-123'' ''hello'') example_state
        = send_message example_env r 1 s1"
    and fr: "\<forall>s2. send_message example_env r 1 s1 = (Inr (), s2) \<longrightarrow>
        handle_frame example_env 1 ''7c9e6679'' frame_hello example_state = (Inr (), s2)
        \<and> sent s2 = sent example_state @ [(1, r)]"
    using session_id_echoed [OF l validate_hello, of example_state 1 "''7c9e6679''"] by auto
  from hm m have "send_message example_env r 1 s1 = (Inr (), example_state\<lparr>sent :=
          [(1, ChatResponse_init ''abc-123'' ''How can I help you with your invoices?'' ''2025-01-01T12:00:00'')]\<rparr>)"
    by simp
  with fr have "handle_frame example_env 1 ''7c9e6679'' frame_hello example_state
     = (Inr (), example_state\<lparr>sent :=
          [(1, ChatResponse_init ''abc-123'' ''How can I help you with your invoices?'' ''2025-01-01T12:00:00'')]\<rparr>)"
    by blast
  with l show ?thesis
    by (simp add: ChatResponse_init_def)
qed

text \<open>
  C6, as the code has it. The connection is open, with the session id \<open>sid\<close> that
  \<open>uuid4\<close> made before any frame was read, and a frame arrives that \<open>json.loads\<close>
  does not decode. When the decoder's exception is a \<open>JSONDecodeError\<close>, the raw payload
  goes to \<open>process_chat_message\<close> as chat text, which returns, and the response carries
  the agent's answer. When it is any other exception, nothing is asked of the agent and
  the response is the error response, with \<open>success\<close> false. Either way one response is
  handed to the socket, with \<open>message_type\<close> \<open>response\<close> and \<open>sid\<close> as session id;
  when the socket accepts it the endpoint goes on with the next frame, that response
  added to those sent, and when \<open>send_text\<close> raises, its exception ends the loop.
\<close>

theorem not_json_frame_reply:
  assumes c: "connect E ws s = (Inr (), s1)"
    and u: "uuid4 E (world s1) = (sid, w1)"
    and r: "ws_receive_text E ws w1 = (Inr data, w2)"
    and j: "json_loads E data = Inl err"
  shows "\<exists>s3 r.
           (if exn_class_of err = JSONDecodeError
            then \<exists>a. process_chat_message E data (s1\<lparr>world := w2\<rparr>) = (Inr a, s3)
                   \<and> r = ChatResponse_init sid a (fst (now_isoformat E (world s3))) \<and> success r
            else s3 = s1\<lparr>world := w2\<rparr>
                   \<and> r = error_response sid (fst (now_isoformat E w2)) err \<and> \<not> success r)
         \<and> session_id r = sid \<and> message_type r = ''response''
         \<and> (\<forall>w4. ws_send_text E ws r (snd (now_isoformat E (world s3))) = (Inr (), w4) \<longrightarrow>
               websocket_endpoint E (Suc n) ws s
                 = close_connection ws
                     (receive_loop E n ws sid (s3\<lparr>world := w4, sent := sent s1 @ [(ws, r)]\<rparr>)))
         \<and> (\<forall>e w4. ws_send_text E ws r (snd (now_isoformat E (world s3))) = (Inl e, w4) \<longrightarrow>
               websocket_endpoint E (Suc n) ws s = close_connection ws (Some (e, s3\<lparr>world := w4\<rparr>)))"
proof (cases "exn_class_of err = JSONDecodeError")
  case True
  let ?s0 = "s1\<lparr>world := w2\<rparr>"
  obtain a w p where a: "process_chat_message E data ?s0 = (Inr a, ?s0\<lparr>world := w, printed := printed ?s0 @ p\<rparr>)"
    using process_chat_message_returns [of E data ?s0] by blast
  let ?s3 = "?s0\<lparr>world := w, printed := printed ?s0 @ p\<rparr>"
  let ?r = "ChatResponse_init sid a (fst (now_isoformat E (world ?s3)))"
  let ?s4 = "?s3\<lparr>world := snd (now_isoformat E (world ?s3))\<rparr>"
  have hf: "handle_frame E ws sid data ?s0 = send_message E ?r ws ?s4"
    by (simp only: handle_frame_not_json [OF j True] plain_text_fallback_eq [OF a])
  have f: "success ?r \<and> session_id ?r = sid \<and> message_type ?r = ''response''"
    by (simp add: ChatResponse_init_def)
  from endpoint_first_frame [OF c u r hf, of n]
  have "(\<forall>w4. ws_send_text E ws ?r (snd (now_isoformat E (world ?s3))) = (Inr (), w4) \<longrightarrow>
               websocket_endpoint E (Suc n) ws s
                 = close_connection ws
                     (receive_loop E n ws sid (?s3\<lparr>world := w4, sent := sent s1 @ [(ws, ?r)]\<rparr>)))
         \<and> (\<forall>e w4. ws_send_text E ws ?r (snd (now_isoformat E (world ?s3))) = (Inl e, w4) \<longrightarrow>
               websocket_endpoint E (Suc n) ws s = close_connection ws (Some (e, ?s3\<lparr>world := w4\<rparr>)))"
    by simp
  with True a f show ?thesis
    by (intro exI [of _ ?s3] exI [of _ ?r]) simp
next
  case False
  let ?s3 = "s1\<lparr>world := w2\<rparr>"
  let ?r = "error_response sid (fst (now_isoformat E w2)) err"
  let ?s4 = "?s3\<lparr>world := snd (now_isoformat E (world ?s3))\<rparr>"
  have hf: "handle_frame E ws sid data ?s3 = send_message E ?r ws ?s4"
    by (simp add: handle_frame_other [OF j False] report_error_eq)
  have f: "\<not> success ?r \<and> session_id ?r = sid \<and> message_type ?r = ''response''"
    by (simp add: error_response_def ChatResponse_init_def)
  from endpoint_first_frame [OF c u r hf, of n]
  have "(\<forall>w4. ws_send_text E ws ?r (snd (now_isoformat E (world ?s3))) = (Inr (), w4) \<longrightarrow>
               websocket_endpoint E (Suc n) ws s
                 = close_connection ws
                     (receive_loop E n ws sid (?s3\<lparr>world := w4, sent := sent s1 @ [(ws, ?r)]\<rparr>)))
         \<and> (\<forall>e w4. ws_send_text E ws ?r (snd (now_isoformat E (world ?s3))) = (Inl e, w4) \<longrightarrow>
               websocket_endpoint E (Suc n) ws s = close_connection ws (Some (e, ?s3\<lparr>world := w4\<rparr>)))"
    by simp
  with False f show ?thesis
    by (intro exI [of _ ?s3] exI [of _ ?r]) simp
qed

theorem not_json_frame_reply_witness:
  "connect visitor_env 2 example_state = (Inr (), example_state\<lparr>active_connections := [1, 2]\<rparr>)
   \<and> uuid4 visitor_env 0 = (''7c9e6679-7425-40de-944b-e07fc1f90ae7'', 0)
   \<and> ws_receive_text visitor_env 2 0 = (Inr ''hello there'', 1)
   \<and> json_loads visitor_env ''hello there''
       = Inl (Exn JSONDecodeError ''Expecting value: line 1 column 1 (char 0)'')
   \<and> websocket_endpoint visitor_env (Suc (Suc 0)) 2 example_state
       = Some (Inr (), example_state\<lparr>world := 1, sent :=
           [(2, ChatResponse_init ''7c9e6679-7425-40de-944b-e07fc1f90ae7''
                  ''How can I help you with your invoices?'' ''2025-01-01T12:00:00'')]\<rparr>)"
proof -
  let ?s1 = "example_state\<lparr>active_connections := [1, 2]\<rparr>"
  let ?sid = "''7c9e6679-7425-40de-944b-e07fc1f90ae7''"
  let ?err = "Exn JSONDecodeError ''Expecting value: line 1 column 1 (char 0)''"
  have c: "connect visitor_env 2 example_state = (Inr (), ?s1)"
    by (simp add: connect_def visitor_env_def example_env_def example_state_def remote_def py_defs)
  have u: "uuid4 visitor_env (world ?s1) = (?sid, 0)"
    by (simp add: visitor_env_def example_env_def example_state_def)
  have r: "ws_receive_text visitor_env 2 0 = (Inr ''hello there'', 1)"
    by (simp add: visitor_env_def)
  have j: "json_loads visitor_env ''hello there'' = Inl ?err"
    by (simp add: visitor_env_def example_defs)
  have p: "process_chat_message visitor_env ''hello there'' (?s1\<lparr>world := 1\<rparr>)
             = (Inr ''How can I help you with your invoices?'', ?s1\<lparr>world := 1\<rparr>)"
    by (simp add: visitor_env_def agent_defs example_defs)
  from not_json_frame_reply [OF c u r j, of "Suc 0"]
  obtain s3 rr where
    b: "\<exists>a. process_chat_message visitor_env ''hello there'' (?s1\<lparr>world := 1\<rparr>) = (Inr a, s3)
          \<and> rr = ChatResponse_init ?sid a (fst (now_isoformat visitor_env (world s3))) \<and> success rr"
    and ok: "\<forall>w4. ws_send_text visitor_env 2 rr (snd (now_isoformat visitor_env (world s3))) = (Inr (), w4) \<longrightarrow>
               websocket_endpoint visitor_env (Suc (Suc 0)) 2 example_state
                 = close_connection 2
                     (receive_loop visitor_env (Suc 0) 2 ?sid (s3\<lparr>world := w4, sent := sent ?s1 @ [(2, rr)]\<rparr>))"
    unfolding exn_class_of.simps by (simp only: simp_thms if_True) blast
  from b obtain a where a: "process_chat_message visitor_env ''hello there'' (?s1\<lparr>world := 1\<rparr>) = (Inr a, s3)"
    and rr: "rr = ChatResponse_init ?sid a (fst (now_isoformat visitor_env (world s3)))"
    by blast
  from a p have a': "a = ''How can I help you with your invoices?''" and s3: "s3 = ?s1\<lparr>world := 1\<rparr>"
    by simp_all
  have t: "now_isoformat visitor_env 1 = (''2025-01-01T12:00:00'', 1)"
    by (simp add: visitor_env_def example_env_def)
  have rr': "rr = ChatResponse_init ?sid ''How can I help you with your invoices?'' ''2025-01-01T12:00:00''"
    using rr a' s3 t by simp
  have "ws_send_text visitor_env 2 rr 1 = (Inr (), 1)"
    by (simp add: visitor_env_def example_env_def py_defs)
  with ok s3 t have "websocket_endpoint visitor_env (Suc (Suc 0)) 2 example_state
                 = close_connection 2
                     (receive_loop visitor_env (Suc 0) 2 ?sid (?s1\<lparr>world := 1, sent := sent ?s1 @ [(2, rr)]\<rparr>))"
    by simp
  also have "\<dots> = Some (Inr (), example_state\<lparr>world := 1, sent := [(2, rr)]\<rparr>)"
    by (simp add: close_connection_def disconnect_def visitor_env_def example_state_def remote_def py_defs)
  finally have e: "websocket_endpoint visitor_env (Suc (Suc 0)) 2 example_state
      = Some (Inr (), example_state\<lparr>world := 1, sent := [(2, rr)]\<rparr>)" .
  from c u r j e show ?thesis
    unfolding rr' by (simp add: example_state_def)
qed

text \<open>
  The claim as stated fails: a frame that is no JSON text and makes the decoder raise
  another exception than \<open>JSONDecodeError\<close> is not taken as chat text; the reply is the
  response of the clause \<open>except Exception\<close>, with \<open>success\<close> false.
\<close>

theorem not_json_counterexample:
  "json_loads deep_env frame_deep
     = Inl (Exn RecursionError
              ''maximum recursion depth exceeded while decoding a JSON array from a unicode string'')
   \<and> snd (handle_frame deep_env 1 ''7c9e6679'' frame_deep example_state)
     = example_state
         \<lparr>sent := [(1, \<lparr>session_id = ''7c9e6679'',
                        message = ''Sorry, I encountered an error processing your message.'',
                        sender = ''agent'', timestamp = ''2025-01-01T12:00:00'',
                        message_type = ''response'', success = False,
                        error = Some ''maximum recursion depth exceeded while decoding a JSON array from a unicode string''\<rparr>)]\<rparr>"
  by (simp add: handle_frame_def report_error_def error_response_def generic_error_message_def
      ChatResponse_init_def deep_env_def example_env_def example_state_def now_def send_message_def
      remote_def py_defs)







text \<open>
  C9. Every response that the handling of a frame sends goes to the frame's socket, and
  one with \<open>success = False\<close> has the fixed generic message and an \<open>error\<close> field, which
  is the text \<open>str(e)\<close> of the exception caught, never the message. The field is not
  empty when the exceptions of the decoder, the validation and the socket carry a text
  (\<open>carries_text\<close>), as the libraries' exceptions do.
\<close>

theorem error_flag_invariant:
  "\<exists>new. sent (snd (handle_frame E ws sid data s)) = sent s @ new
     \<and> (\<forall>x \<in> set new. fst x = ws
           \<and> (\<not> success (snd x) \<longrightarrow>
                 message (snd x) = generic_error_message \<and> error (snd x) \<noteq> None
                 \<and> (carries_text E ws \<longrightarrow> error (snd x) \<noteq> Some [])))"
proof -
  obtain new where new: "sent (snd (handle_frame E ws sid data s)) = sent s @ new"
    and each: "\<forall>x \<in> set new. fst x = ws
           \<and> (success (snd x)
               \<or> (\<exists>err. flagged err (snd x)
                    \<and> (json_loads E data = Inl err
                        \<or> (\<exists>j. err = ChatMessage_error E j)
                        \<or> (\<exists>r w w'. ws_send_text E ws r w = (Inl err, w')))))"
    using handle_frame_sent [of E ws sid data s] by blast
  have "\<forall>x \<in> set new. fst x = ws
           \<and> (\<not> success (snd x) \<longrightarrow>
                 message (snd x) = generic_error_message \<and> error (snd x) \<noteq> None
                 \<and> (carries_text E ws \<longrightarrow> error (snd x) \<noteq> Some []))"
  proof
    fix x assume "x \<in> set new"
    with each have ws: "fst x = ws" and alt: "success (snd x)
               \<or> (\<exists>err. flagged err (snd x)
                    \<and> (json_loads E data = Inl err
                        \<or> (\<exists>j. err = ChatMessage_error E j)
                        \<or> (\<exists>r w w'. ws_send_text E ws r w = (Inl err, w'))))"
      by blast+
    have "\<not> success (snd x) \<longrightarrow>
                 message (snd x) = generic_error_message \<and> error (snd x) \<noteq> None
                 \<and> (carries_text E ws \<longrightarrow> error (snd x) \<noteq> Some [])"
    proof
      assume ns: "\<not> success (snd x)"
      with alt obtain err where f: "flagged err (snd x)"
        and src: "json_loads E data = Inl err \<or> (\<exists>j. err = ChatMessage_error E j)
                   \<or> (\<exists>r w w'. ws_send_text E ws r w = (Inl err, w'))"
        by blast
      from f ns have m: "message (snd x) = generic_error_message" and e: "error (snd x) = Some (str_exn err)"
        by (simp_all add: flagged_def)
      from src have "carries_text E ws \<longrightarrow> str_exn err \<noteq> []"
        unfolding carries_text_def by blast
      with m e show "message (snd x) = generic_error_message \<and> error (snd x) \<noteq> None
                 \<and> (carries_text E ws \<longrightarrow> error (snd x) \<noteq> Some [])"
        by simp
    qed
    with ws show "fst x = ws
           \<and> (\<not> success (snd x) \<longrightarrow>
                 message (snd x) = generic_error_message \<and> error (snd x) \<noteq> None
                 \<and> (carries_text E ws \<longrightarrow> error (snd x) \<noteq> Some []))" ..
  qed
  with new show ?thesis by blast
qed

theorem error_flag_invariant_witness:
  "carries_text example_env 1
   \<and> handle_frame example_env 1 ''7c9e6679'' frame_no_session example_state
     = (Inr (), example_state\<lparr>sent :=
          [(1, error_response ''7c9e6679'' ''2025-01-01T12:00:00''
                 (Exn ValidationError ''1 validation error for ChatMessage''))]\<rparr>)
   \<and> \<not> success (error_response ''7c9e6679'' ''2025-01-01T12:00:00''
                 (Exn ValidationError ''1 validation error for ChatMessage''))
   \<and> message (error_response ''7c9e6679'' ''2025-01-01T12:00:00''
                 (Exn ValidationError ''1 validation error for ChatMessage'')) = generic_error_message
   \<and> error (error_response ''7c9e6679'' ''2025-01-01T12:00:00''
                 (Exn ValidationError ''1 validation error for ChatMessage''))
       = Some ''1 validation error for ChatMessage''
   \<and> error (error_response ''7c9e6679'' ''2025-01-01T12:00:00''
                 (Exn ValidationError ''1 validation error for ChatMessage'')) \<noteq> Some []"
proof -
  let ?r = "error_response ''7c9e6679'' ''2025-01-01T12:00:00''
                 (Exn ValidationError ''1 validation error for ChatMessage'')"
  have hf: "handle_frame example_env 1 ''7c9e6679'' frame_no_session example_state
     = (Inr (), example_state\<lparr>sent := [(1, ?r)]\<rparr>)"
    by (simp add: handle_frame_def report_error_def ChatMessage_init_def str_field_def
        optional_str_field_def agent_defs example_defs)
  obtain new where new: "sent (snd (handle_frame example_env 1 ''7c9e6679'' frame_no_session example_state))
        = sent example_state @ new"
    and each: "\<forall>x \<in> set new. fst x = 1
           \<and> (\<not> success (snd x) \<longrightarrow>
                 message (snd x) = generic_error_message \<and> error (snd x) \<noteq> None
                 \<and> (carries_text example_env 1 \<longrightarrow> error (snd x) \<noteq> Some []))"
    using error_flag_invariant [of example_env 1 "''7c9e6679''" frame_no_session example_state] by blast
  from new hf have "new = [(1, ?r)]" by (simp add: example_state_def)
  with each have "\<not> success ?r \<longrightarrow>
                 message ?r = generic_error_message \<and> error ?r \<noteq> None
                 \<and> (carries_text example_env 1 \<longrightarrow> error ?r \<noteq> Some [])"
    by simp
  moreover have ns: "\<not> success ?r" by (simp add: error_response_def)
  moreover have "error ?r = Some ''1 validation error for ChatMessage''" by (simp add: error_response_def)
  ultimately show ?thesis using carries_text_example hf by simp
qed

text \<open>
  C4. A call whose \<open>try\<close> block returns \<open>r\<close> reports a customer in \<open>r\<close>. When the lookup
  of \<open>customer_id\<close> returned, that customer is the input. When the lookup raised, the
  exception was the provider's \<open>InvalidRequestError\<close>, \<open>Customer.create\<close> was called with
  the email \<open><customer_id>@demo.com\<close> and returned a customer, the invoice and its item
  were created for that customer's id, and \<open>r\<close> reports that id: \<open>r\<close> is not the message
  for the input whenever the provider's new id is not the input.
\<close>

theorem demo_customer_on_not_found:
  assumes "create_invoice_try E customer_id amount currency description w = (Inr r, w')"
  shows "\<exists>amount' cur fin cid.
           create_invoice E customer_id amount currency description w = (Inr r, w')
         \<and> invoice_message E fin cid amount' currency = Inr r
         \<and> (case Customer_retrieve E customer_id w of
               (Inr c, w1) \<Rightarrow> cid = customer_id
             | (Inl err, w1) \<Rightarrow>
                 exn_class_of err = InvalidRequestError
               \<and> (\<exists>demo w2 invoice w3 w4.
                     Customer_create E (PyStr (py_str E customer_id @ ''@demo.com''))
                       (PyStr (''Demo Customer '' @ py_str E customer_id))
                       (PyStr ''Demo customer created by AI agent'') w1 = (Inr demo, w2)
                   \<and> cid = PyStr (cus_id demo)
                   \<and> Invoice_create E (PyStr (cus_id demo)) cur
                       (py_or description (PyStr ''Invoice created by AI agent'')) w2 = (Inr invoice, w3)
                   \<and> InvoiceItem_create E (PyStr (cus_id demo)) (inv_id invoice) amount' cur
                       (py_or description (PyStr ''Invoice item'')) w3 = (Inr (), w4)
                   \<and> (cus_id demo \<noteq> py_str E customer_id
                        \<longrightarrow> invoice_message E fin customer_id amount' currency \<noteq> Inr r)))"
proof -
  from create_invoice_try_success [OF assms]
  obtain amount' cid w1 cur invoice w2 w3 fin where
    ec: "ensure_customer E customer_id w = (Inr cid, w1)"
    and ic: "Invoice_create E cid cur (py_or description (PyStr ''Invoice created by AI agent'')) w1
             = (Inr invoice, w2)"
    and it: "InvoiceItem_create E cid (inv_id invoice) amount' cur
               (py_or description (PyStr ''Invoice item'')) w2 = (Inr (), w3)"
    and msg: "invoice_message E fin cid amount' currency = Inr r"
    by blast
  have ci: "create_invoice E customer_id amount currency description w = (Inr r, w')"
    using assms by (simp add: create_invoice_def py_try_def)
  from ensure_customer_success [OF ec]
  have cs: "case Customer_retrieve E customer_id w of
               (Inr c, w1) \<Rightarrow> cid = customer_id
             | (Inl err, w1) \<Rightarrow>
                 exn_class_of err = InvalidRequestError
               \<and> (\<exists>demo w2 invoice w3 w4.
                     Customer_create E (PyStr (py_str E customer_id @ ''@demo.com''))
                       (PyStr (''Demo Customer '' @ py_str E customer_id))
                       (PyStr ''Demo customer created by AI agent'') w1 = (Inr demo, w2)
                   \<and> cid = PyStr (cus_id demo)
                   \<and> Invoice_create E (PyStr (cus_id demo)) cur
                       (py_or description (PyStr ''Invoice created by AI agent'')) w2 = (Inr invoice, w3)
                   \<and> InvoiceItem_create E (PyStr (cus_id demo)) (inv_id invoice) amount' cur
                       (py_or description (PyStr ''Invoice item'')) w3 = (Inr (), w4)
                   \<and> (cus_id demo \<noteq> py_str E customer_id
                        \<longrightarrow> invoice_message E fin customer_id amount' currency \<noteq> Inr r))"
  proof (elim disjE exE conjE)
    fix c
    assume "Customer_retrieve E customer_id w = (Inr c, w1)" and "cid = customer_id"
    then show ?thesis by simp
  next
    fix err w0 demo
    assume r: "Customer_retrieve E customer_id w = (Inl err, w0)"
      and c: "exn_class_of err = InvalidRequestError"
      and d: "demo_customer E customer_id w0 = (Inr demo, w1)"
      and e: "cid = PyStr (cus_id demo)"
    have "cus_id demo \<noteq> py_str E customer_id
            \<longrightarrow> invoice_message E fin customer_id amount' currency \<noteq> Inr r"
      using invoice_message_customer [OF msg, of customer_id] e by auto
    with r c d e ic it show ?thesis
      unfolding demo_customer_def by auto
  qed
  show ?thesis
    by (rule exI [of _ amount'], rule exI [of _ cur], rule exI [of _ fin], rule exI [of _ cid])
       (rule conjI [OF ci conjI [OF msg cs]])
qed

theorem demo_customer_on_not_found_witness:
  "create_invoice_try example_env (PyStr ''cus_42'') (PyInt 1000) (PyStr ''inr'') (PyStr '''') 7
     = (Inr (''Invoice in_1 created successfully for customer cus_demo1 with amount '' @ rupee
             @ ''10.00 INR. Total: '' @ rupee @ ''10.00 INR''), 1000)
   \<and> Customer_retrieve example_env (PyStr ''cus_42'') 7
     = (Inl (Exn InvalidRequestError ''No such customer''), 7)
   \<and> create_invoice example_env (PyStr ''cus_42'') (PyInt 1000) (PyStr ''inr'') (PyStr '''') 7
     = (Inr (''Invoice in_1 created successfully for customer cus_demo1 with amount '' @ rupee
             @ ''10.00 INR. Total: '' @ rupee @ ''10.00 INR''), 1000)
   \<and> ''cus_demo1'' \<noteq> ''cus_42''
   \<and> invoice_message example_env \<lparr>inv_id = ''in_1'', inv_total = 1000\<rparr> (PyStr ''cus_42'') 1000 (PyStr ''inr'')
     \<noteq> Inr (''Invoice in_1 created successfully for customer cus_demo1 with amount '' @ rupee
             @ ''10.00 INR. Total: '' @ rupee @ ''10.00 INR'')
   \<and> create_invoice example_env (PyStr ''cus_known'') (PyInt 1000) (PyStr ''inr'') (PyStr '''') 7
     = (Inr (''Invoice in_1 created successfully for customer cus_known with amount '' @ rupee
             @ ''10.00 INR. Total: '' @ rupee @ ''10.00 INR''), 1000)"
proof -
  let ?r = "''Invoice in_1 created successfully for customer cus_demo1 with amount '' @ rupee
             @ ''10.00 INR. Total: '' @ rupee @ ''10.00 INR''"
  have h: "create_invoice_try example_env (PyStr ''cus_42'') (PyInt 1000) (PyStr ''inr'') (PyStr '''') 7
     = (Inr ?r, 1000)"
    by code_simp
  have l: "Customer_retrieve example_env (PyStr ''cus_42'') 7
     = (Inl (Exn InvalidRequestError ''No such customer''), 7)"
    by (simp add: example_env_def py_raise_def)
  from demo_customer_on_not_found [OF h]
  have c: "create_invoice example_env (PyStr ''cus_42'') (PyInt 1000) (PyStr ''inr'') (PyStr '''') 7
     = (Inr ?r, 1000)"
    by blast
  have d: "''cus_demo1'' \<noteq> ''cus_42''"
    by simp
  have m: "invoice_message example_env \<lparr>inv_id = ''in_1'', inv_total = 1000\<rparr> (PyStr ''cus_42'') 1000 (PyStr ''inr'')
     \<noteq> Inr ?r"
    by code_simp
  have k: "create_invoice example_env (PyStr ''cus_known'') (PyInt 1000) (PyStr ''inr'') (PyStr '''') 7
     = (Inr (''Invoice in_1 created successfully for customer cus_known with amount '' @ rupee
             @ ''10.00 INR. Total: '' @ rupee @ ''10.00 INR''), 1000)"
    by code_simp
  from h l c d m k show ?thesis
    by (intro conjI)
qed

text \<open>
  C8, as the code has it. In a call whose \<open>try\<close> block returns \<open>r\<close>, the amount was
  coerced by \<open>int(float(amount))\<close>, one invoice item was created with that amount, and
  \<open>r\<close> shows two numbers, each divided by 100 and formatted to two decimals: the coerced
  amount, and after \<open>Total:\<close> the \<open>total\<close> of the finalized invoice as the provider
  returned it. The two agree when the provider's total is the item's amount.
\<close>

theorem reported_total_is_finalized_total:
  assumes "create_invoice_try E customer_id amount currency description w = (Inr r, w')"
  shows "\<exists>x amount' cid cur (invoice :: Invoice) w2 w3 fin a t cur'.
           py_float E amount = Inr x \<and> int_of_float x = Inr amount'
         \<and> InvoiceItem_create E cid (inv_id invoice) amount' cur
               (py_or description (PyStr ''Invoice item'')) w2 = (Inr (), w3)
         \<and> Invoice_finalize_invoice E (inv_id invoice) w3 = (Inr fin, w')
         \<and> major_units amount' = Inr a \<and> major_units (inv_total fin) = Inr t
         \<and> upper_of currency = Inr cur'
         \<and> r = ''Invoice '' @ inv_id fin @ '' created successfully for customer '' @ py_str E cid
               @ '' with amount '' @ rupee @ a @ '' '' @ cur'
               @ ''. Total: '' @ rupee @ t @ '' '' @ cur'
         \<and> (inv_total fin = amount' \<longrightarrow> t = a)"
proof -
  from create_invoice_try_success [OF assms]
  obtain amount' cid cur and invoice :: Invoice and w2 w3 fin where
    ca: "coerce_amount E amount = Inr amount'"
    and it: "InvoiceItem_create E cid (inv_id invoice) amount' cur
               (py_or description (PyStr ''Invoice item'')) w2 = (Inr (), w3)"
    and fi: "Invoice_finalize_invoice E (inv_id invoice) w3 = (Inr fin, w')"
    and msg: "invoice_message E fin cid amount' currency = Inr r"
    by blast
  from ca obtain x where x: "py_float E amount = Inr x" "int_of_float x = Inr amount'"
    by (auto simp: coerce_amount_def split: sum.splits)
  from msg obtain a t cur' where
    a: "major_units amount' = Inr a" and t: "major_units (inv_total fin) = Inr t"
    and u: "upper_of currency = Inr cur'"
    and r: "r = ''Invoice '' @ inv_id fin @ '' created successfully for customer '' @ py_str E cid
               @ '' with amount '' @ rupee @ a @ '' '' @ cur'
               @ ''. Total: '' @ rupee @ t @ '' '' @ cur'"
    by (auto simp: invoice_message_def split: sum.splits)
  from a t have "inv_total fin = amount' \<longrightarrow> t = a"
    by auto
  with x it fi a t u r show ?thesis
    by blast
qed

theorem reported_total_is_finalized_total_witness:
  "create_invoice_try example_env (PyStr ''cus_known'') (PyFloat (Finite 3999 (- 1))) (PyStr ''usd'')
       (PyStr ''Design work'') 0
     = (Inr (''Invoice in_1 created successfully for customer cus_known with amount '' @ rupee
             @ ''19.99 USD. Total: '' @ rupee @ ''19.99 USD''), 1999)
   \<and> coerce_amount example_env (PyFloat (Finite 3999 (- 1))) = Inr 1999
   \<and> Invoice_finalize_invoice example_env ''in_1'' 1999 = (Inr \<lparr>inv_id = ''in_1'', inv_total = 1999\<rparr>, 1999)
   \<and> major_units 1999 = Inr ''19.99''"
proof -
  have h: "create_invoice_try example_env (PyStr ''cus_known'') (PyFloat (Finite 3999 (- 1))) (PyStr ''usd'')
       (PyStr ''Design work'') 0
     = (Inr (''Invoice in_1 created successfully for customer cus_known with amount '' @ rupee
             @ ''19.99 USD. Total: '' @ rupee @ ''19.99 USD''), 1999)"
    by code_simp
  from reported_total_is_finalized_total [OF h]
  obtain x amount' where "py_float example_env (PyFloat (Finite 3999 (- 1))) = Inr x"
    and "int_of_float x = Inr amount'"
    by blast
  then have c: "coerce_amount example_env (PyFloat (Finite 3999 (- 1))) = Inr 1999"
    by (auto simp: coerce_amount_def signed_def)
  have f: "Invoice_finalize_invoice example_env ''in_1'' 1999
     = (Inr \<lparr>inv_id = ''in_1'', inv_total = 1999\<rparr>, 1999)"
    by (simp add: example_env_def)
  have m: "major_units 1999 = Inr ''19.99''"
    by code_simp
  from h c f m show ?thesis
    by (intro conjI)
qed

text \<open>
  The claim as stated fails: for a customer with a discount the provider's total is what
  is due, and the result reports 9.00 for an invoice whose one item is 10.00.
\<close>

theorem reported_total_counterexample:
  "create_invoice discount_env (PyStr ''cus_known'') (PyInt 1000) (PyStr ''inr'') (PyStr '''') 0
     = (Inr (''Invoice in_1 created successfully for customer cus_known with amount '' @ rupee
             @ ''10.00 INR. Total: '' @ rupee @ ''9.00 INR''), 1000)
   \<and> major_units 1000 = Inr ''10.00''"
  by code_simp

end
